theory Spec2Isabelle
  imports Main "HOL-Library.Word"
begin

unbundle bit_operations_syntax

section \<open>Package serde: data model\<close>

type_synonym byte = "8 word"

text \<open>Go's \<^verbatim>\<open>[]byte\<close> may be \<^verbatim>\<open>nil\<close>: \<open>None\<close> is the nil slice, \<open>Some []\<close> the empty one.\<close>

type_synonym bytes = "byte list option"

text \<open>Errors of package serde are carried by their message (\<^verbatim>\<open>err.Error()\<close>).\<close>

type_synonym errmsg = string

type_synonym PayloadEncoding = string

datatype PayloadType = PayloadTypeKey | PayloadTypeValue

text \<open>\<^verbatim>\<open>kgo.Record\<close>, restricted to the fields the package reads.\<close>

record kgo_Record =
  Key :: bytes
  Value :: bytes
  Topic :: string
  Headers :: "(string \<times> bytes) list"

record TroubleshootingReport =
  SerdeName :: string
  Message :: string

text \<open>
  Modelled from the spec: the declaration of \<^verbatim>\<open>RecordPayload\<close> is not among the sources.
  The fields are the ones the sources assign or read (\<^verbatim>\<open>ParsedPayload\<close>,
  \<^verbatim>\<open>NormalizedPayload\<close>, \<^verbatim>\<open>Encoding\<close>, \<^verbatim>\<open>PayloadSizeBytes\<close>, \<^verbatim>\<open>IsPayloadNull\<close>,
  \<^verbatim>\<open>IsPayloadTooLarge\<close>, \<^verbatim>\<open>OriginalPayload\<close>, \<^verbatim>\<open>Troubleshooting\<close>) and the optional
  schema identifier (\<^verbatim>\<open>SchemaID\<close>, which the XML test reads and compares with nil).
  \<open>'v\<close> is the dynamically typed parsed value (\<^verbatim>\<open>interface{}\<close>).
\<close>

record 'v RecordPayload =
  ParsedPayload :: "'v option"
  NormalizedPayload :: bytes
  Encoding :: PayloadEncoding
  PayloadSizeBytes :: int
  IsPayloadNull :: bool
  IsPayloadTooLarge :: bool
  OriginalPayload :: bytes
  Troubleshooting :: "TroubleshootingReport list option"
  SchemaID :: "32 word option"

text \<open>The zero value \<^verbatim>\<open>RecordPayload{}\<close>.\<close>

definition RecordPayload_zero :: "'v RecordPayload" where
  "RecordPayload_zero =
     \<lparr>ParsedPayload = None, NormalizedPayload = None, Encoding = '''',
      PayloadSizeBytes = 0, IsPayloadNull = False, IsPayloadTooLarge = False,
      OriginalPayload = None, Troubleshooting = None, SchemaID = None\<rparr>"

text \<open>
  Modelled from the spec: the encoding constants are declared outside the sources; the spec
  names the classifications "none" and "binary", and the Avro label.
\<close>

definition PayloadEncodingNone :: PayloadEncoding where
  "PayloadEncodingNone = ''none''"

definition PayloadEncodingBinary :: PayloadEncoding where
  "PayloadEncodingBinary = ''binary''"

definition payloadEncodingAvro :: PayloadEncoding where
  "payloadEncodingAvro = ''avro''"

text \<open>The result \<^verbatim>\<open>Record\<close> of \<^verbatim>\<open>DeserializeRecord\<close>.\<close>

record 'v Record =
  rec_Key :: "'v RecordPayload"
  rec_Value :: "'v RecordPayload"
  rec_Headers :: "(string \<times> bytes) list"

record DeserializationOptions =
  KeyEncoding :: PayloadEncoding
  ValueEncoding :: PayloadEncoding
  MaxPayloadSize :: int
  Troubleshoot :: bool
  IncludeRawData :: bool

text \<open>Options handed to \<^verbatim>\<open>SerializeObject\<close>; only \<^verbatim>\<open>WithTopic\<close> is built by the sources.\<close>

datatype SerdeOpt = WithTopic string | OtherOpt string

text \<open>
  The interface \<^verbatim>\<open>Serde\<close>: a codec is its three methods. \<^verbatim>\<open>DeserializePayload\<close>
  returns \<^verbatim>\<open>(*RecordPayload, error)\<close>: \<open>Inl msg\<close> is a non-nil error (the pointer is not
  read then), \<open>Inr None\<close> a nil pointer with a nil error, \<open>Inr (Some rp)\<close> a result.
\<close>

record 'v Serde =
  Name :: PayloadEncoding
  DeserializePayload :: "kgo_Record \<Rightarrow> PayloadType \<Rightarrow> errmsg + 'v RecordPayload option"
  SerializeObject :: "'v \<Rightarrow> PayloadType \<Rightarrow> SerdeOpt list \<Rightarrow> errmsg + bytes"

record 'v Service =
  SerDes :: "'v Serde list"

definition defaultMaxPayloadSize :: int where
  "defaultMaxPayloadSize = 1000000"

section \<open>NewService: the codec chain\<close>

text \<open>
  The concrete codec types of the composite literal in \<^verbatim>\<open>NewService\<close>, with the
  dependency each one is given.
\<close>

datatype ('s, 'p, 'm) SerdeImpl =
    NoneSerde
  | JSONSerde
  | JSONSchemaSerde 's
  | XMLSerde
  | AvroSerde 's
  | ProtobufSerde 'p
  | ProtobufSchemaSerde 'p
  | MsgPackSerde 'm
  | SmileSerde
  | UTF8Serde
  | TextSerde
  | UintSerde

definition NewService_SerDes :: "'s \<Rightarrow> 'p \<Rightarrow> 'm \<Rightarrow> ('s, 'p, 'm) SerdeImpl list" where
  "NewService_SerDes schemaService protoSvc msgPackSvc =
     [NoneSerde,
      JSONSerde,
      JSONSchemaSerde schemaService,
      XMLSerde,
      AvroSerde schemaService,
      ProtobufSerde protoSvc,
      ProtobufSchemaSerde protoSvc,
      MsgPackSerde msgPackSvc,
      SmileSerde,
      UTF8Serde,
      TextSerde,
      UintSerde]"

text \<open>
  \<^verbatim>\<open>NewService\<close>: each element is stored as a \<^verbatim>\<open>Serde\<close> interface value; \<open>methods\<close>
  gives the method set of a concrete codec (the codec bodies are outside the sources).
\<close>

definition NewService ::
  "(('s, 'p, 'm) SerdeImpl \<Rightarrow> 'v Serde) \<Rightarrow> 's \<Rightarrow> 'p \<Rightarrow> 'm \<Rightarrow> 'v Service" where
  "NewService methods schemaService protoSvc msgPackSvc =
     \<lparr>SerDes = map methods (NewService_SerDes schemaService protoSvc msgPackSvc)\<rparr>"

text \<open>
  The formats as the specification words them, and the format each codec type stands for:
  a type named \<^verbatim>\<open>...SchemaSerde\<close> is the with-schema variant of the type without the
  infix (\<^verbatim>\<open>JSONSerde\<close> / \<^verbatim>\<open>JSONSchemaSerde\<close>, \<^verbatim>\<open>ProtobufSerde\<close> / \<^verbatim>\<open>ProtobufSchemaSerde\<close>).
\<close>

datatype CodecFormat =
    NoneCheck
  | Json
  | JsonWithSchema
  | Xml
  | AvroWithSchema
  | ProtobufWithSchema
  | ProtobufWithoutSchema
  | MessagePack
  | Smile
  | Utf8Text
  | PlainText
  | UnsignedInteger

fun format_of :: "('s, 'p, 'm) SerdeImpl \<Rightarrow> CodecFormat" where
  "format_of NoneSerde = NoneCheck"
| "format_of JSONSerde = Json"
| "format_of (JSONSchemaSerde _) = JsonWithSchema"
| "format_of XMLSerde = Xml"
| "format_of (AvroSerde _) = AvroWithSchema"
| "format_of (ProtobufSerde _) = ProtobufWithoutSchema"
| "format_of (ProtobufSchemaSerde _) = ProtobufWithSchema"
| "format_of (MsgPackSerde _) = MessagePack"
| "format_of SmileSerde = Smile"
| "format_of UTF8Serde = Utf8Text"
| "format_of TextSerde = PlainText"
| "format_of UintSerde = UnsignedInteger"

text \<open>The order as the specification lists it.\<close>

definition spec_chain_order :: "CodecFormat list" where
  "spec_chain_order =
     [NoneCheck, Json, JsonWithSchema, Xml, AvroWithSchema, ProtobufWithSchema,
      ProtobufWithoutSchema, MessagePack, Smile, Utf8Text, PlainText, UnsignedInteger]"

section \<open>DeserializeRecord and deserializePayload\<close>

definition payloadFromRecord :: "kgo_Record \<Rightarrow> PayloadType \<Rightarrow> bytes" where
  "payloadFromRecord record payloadType =
     (if payloadType = PayloadTypeValue then Value record else Key record)"

text \<open>Go's \<^verbatim>\<open>len\<close> on a byte slice: the nil slice has length 0.\<close>

fun len :: "bytes \<Rightarrow> int" where
  "len None = 0"
| "len (Some bs) = int (length bs)"

text \<open>
  The loop over \<^verbatim>\<open>s.SerDes\<close> in \<^verbatim>\<open>deserializePayload\<close>. The state is the pair
  \<^verbatim>\<open>(rp, err)\<close> of the last attempt, the troubleshooting entries so far and, as a ghost
  component, the names of the codecs whose \<^verbatim>\<open>DeserializePayload\<close> was called.
  A success leaves the loop; a failure appends an entry and goes on.
\<close>

fun trySerDes ::
  "'v Serde list \<Rightarrow> kgo_Record \<Rightarrow> PayloadType \<Rightarrow>
   (errmsg + 'v RecordPayload option) \<times> TroubleshootingReport list \<times> PayloadEncoding list \<Rightarrow>
   (errmsg + 'v RecordPayload option) \<times> TroubleshootingReport list \<times> PayloadEncoding list" where
  "trySerDes [] record payloadType st = st"
| "trySerDes (serde # rest) record payloadType (last_result, troubleshooting, invoked) =
     (case DeserializePayload serde record payloadType of
        Inr rp \<Rightarrow> (Inr rp, troubleshooting, invoked @ [Name serde])
      | Inl err \<Rightarrow>
          trySerDes rest record payloadType
            (Inl err,
             troubleshooting @ [\<lparr>SerdeName = Name serde, Message = err\<rparr>],
             invoked @ [Name serde]))"

text \<open>The state before the loop: \<^verbatim>\<open>rp\<close> and \<^verbatim>\<open>err\<close> nil, no entries, nothing called.\<close>

definition runSerDes ::
  "'v Service \<Rightarrow> kgo_Record \<Rightarrow> PayloadType \<Rightarrow>
   (errmsg + 'v RecordPayload option) \<times> TroubleshootingReport list \<times> PayloadEncoding list" where
  "runSerDes s record payloadType = trySerDes (SerDes s) record payloadType (Inr None, [], [])"

text \<open>
  Lines 115 to 124 of \<^verbatim>\<open>deserializePayload\<close>: \<^verbatim>\<open>addTS\<close> starts as the caller's
  \<^verbatim>\<open>Troubleshoot\<close>; a nil result, an error or an empty encoding label replaces the
  result by a fresh binary payload and forces \<^verbatim>\<open>addTS\<close>.
\<close>

definition binaryFallback ::
  "(errmsg + 'v RecordPayload option) \<Rightarrow> bool \<Rightarrow> 'v RecordPayload \<times> bool" where
  "binaryFallback last_result troubleshoot =
     (case last_result of
        Inl err \<Rightarrow> (RecordPayload_zero \<lparr>Encoding := PayloadEncodingBinary\<rparr>, True)
      | Inr None \<Rightarrow> (RecordPayload_zero \<lparr>Encoding := PayloadEncodingBinary\<rparr>, True)
      | Inr (Some rp) \<Rightarrow>
          if Encoding rp = ''''
          then (RecordPayload_zero \<lparr>Encoding := PayloadEncodingBinary\<rparr>, True)
          else (rp, troubleshoot))"

text \<open>
  Lines 126 to 142: size and null flag are always written; the raw bytes, the too-large
  flag with the cleared normalized payload, and the troubleshooting entries are written
  only under their conditions (a field not written keeps the value it had).
\<close>

definition populate ::
  "bytes \<Rightarrow> DeserializationOptions \<Rightarrow> TroubleshootingReport list \<Rightarrow>
   'v RecordPayload \<times> bool \<Rightarrow> 'v RecordPayload" where
  "populate payload opts troubleshooting r =
     (fst r)
       \<lparr>PayloadSizeBytes := len payload,
        IsPayloadNull := (payload = None),
        OriginalPayload := (if IncludeRawData opts then payload else OriginalPayload (fst r)),
        IsPayloadTooLarge :=
          (if len payload > MaxPayloadSize opts then True else IsPayloadTooLarge (fst r)),
        NormalizedPayload :=
          (if len payload > MaxPayloadSize opts then None else NormalizedPayload (fst r)),
        Troubleshooting :=
          (if snd r then Some troubleshooting else Troubleshooting (fst r))\<rparr>"

definition deserializePayload ::
  "'v Service \<Rightarrow> kgo_Record \<Rightarrow> PayloadType \<Rightarrow> DeserializationOptions \<Rightarrow> 'v RecordPayload" where
  "deserializePayload s record payloadType opts =
     (let payload = payloadFromRecord record payloadType;
          originalPayload = (if IncludeRawData opts then payload else None)
      in if len payload = 0 then
           RecordPayload_zero
             \<lparr>OriginalPayload := originalPayload,
              IsPayloadNull := (payload = None),
              PayloadSizeBytes := 0,
              Encoding := PayloadEncodingNone\<rparr>
         else
           populate payload opts (fst (snd (runSerDes s record payloadType)))
             (binaryFallback (fst (runSerDes s record payloadType)) (Troubleshoot opts)))"

text \<open>The names of the codecs called by \<^verbatim>\<open>deserializePayload\<close> for a non-empty payload.\<close>

definition invokedSerDes :: "'v Service \<Rightarrow> kgo_Record \<Rightarrow> PayloadType \<Rightarrow> PayloadEncoding list" where
  "invokedSerDes s record payloadType = snd (snd (runSerDes s record payloadType))"

text \<open>
  Modelled from the spec: \<^verbatim>\<open>recordHeaders\<close> is declared outside the sources; the headers
  are copied through as an ordered sequence of (name, bytes) pairs.
\<close>

definition recordHeaders :: "kgo_Record \<Rightarrow> (string \<times> bytes) list" where
  "recordHeaders record = Headers record"

text \<open>
  \<^verbatim>\<open>DeserializeRecord\<close>. The consumer-offsets decoder (\<^verbatim>\<open>deserializeConsumerOffset\<close>) is a
  method declared outside the sources and is taken as a parameter. \<open>withDefaults\<close> is
  the defaulting of lines 53 to 56.
\<close>

definition withDefaults :: "DeserializationOptions \<Rightarrow> DeserializationOptions" where
  "withDefaults opts =
     (if MaxPayloadSize opts \<le> 0
      then opts \<lparr>MaxPayloadSize := defaultMaxPayloadSize\<rparr> else opts)"

definition DeserializeRecord ::
  "'v Service \<Rightarrow> (kgo_Record \<Rightarrow> errmsg + 'v Record) \<Rightarrow> kgo_Record \<Rightarrow>
   DeserializationOptions \<Rightarrow> 'v Record" where
  "DeserializeRecord s deserializeConsumerOffset record opts0 =
     (let opts = withDefaults opts0;
          general =
            \<lparr>rec_Key = deserializePayload s record PayloadTypeKey opts,
             rec_Value = deserializePayload s record PayloadTypeValue opts,
             rec_Headers = recordHeaders record\<rparr>
      in if Topic record = ''__consumer_offsets'' then
           (case deserializeConsumerOffset record of
              Inr rec \<Rightarrow> rec
            | Inl err \<Rightarrow> general)
         else general)"

subsection \<open>Running the chain by hand\<close>

text \<open>
  The notions the claims about \<^verbatim>\<open>deserializePayload\<close> speak of, defined on the codec list
  without the loop: whether a codec's decode attempt fails, the codecs that fail before the
  first success, the first codec that succeeds, the troubleshooting entry of a failed codec
  and the entries accumulated before the first success.
\<close>

definition decodeFails :: "kgo_Record \<Rightarrow> PayloadType \<Rightarrow> 'v Serde \<Rightarrow> bool" where
  "decodeFails record payloadType serde = isl (DeserializePayload serde record payloadType)"

definition failedCodecs :: "'v Serde list \<Rightarrow> kgo_Record \<Rightarrow> PayloadType \<Rightarrow> 'v Serde list" where
  "failedCodecs serdes record payloadType = takeWhile (decodeFails record payloadType) serdes"

definition firstSuccess :: "'v Serde list \<Rightarrow> kgo_Record \<Rightarrow> PayloadType \<Rightarrow> 'v Serde option" where
  "firstSuccess serdes record payloadType =
     find (\<lambda>serde. \<not> decodeFails record payloadType serde) serdes"

definition reportOf :: "kgo_Record \<Rightarrow> PayloadType \<Rightarrow> 'v Serde \<Rightarrow> TroubleshootingReport" where
  "reportOf record payloadType serde =
     \<lparr>SerdeName = Name serde,
      Message = (case DeserializePayload serde record payloadType of
                   Inl err \<Rightarrow> err | Inr rp \<Rightarrow> '''')\<rparr>"

definition accumulatedReports ::
  "'v Serde list \<Rightarrow> kgo_Record \<Rightarrow> PayloadType \<Rightarrow> TroubleshootingReport list" where
  "accumulatedReports serdes record payloadType =
     map (reportOf record payloadType) (failedCodecs serdes record payloadType)"

text \<open>
  The result reported by the first codec that succeeds, when there is one and it is not a
  nil pointer.
\<close>

definition winningResult ::
  "'v Serde list \<Rightarrow> kgo_Record \<Rightarrow> PayloadType \<Rightarrow> 'v RecordPayload option" where
  "winningResult serdes record payloadType =
     (case firstSuccess serdes record payloadType of
        None \<Rightarrow> None
      | Some serde \<Rightarrow>
          (case DeserializePayload serde record payloadType of
             Inl err \<Rightarrow> None
           | Inr rp \<Rightarrow> rp))"

text \<open>
  The label rule as the specification words it: the returned label is the one reported by
  the first codec of the chain that succeeds.
\<close>

definition spec_label_of_first_success ::
  "'v Service \<Rightarrow> kgo_Record \<Rightarrow> PayloadType \<Rightarrow> DeserializationOptions \<Rightarrow> bool" where
  "spec_label_of_first_success s record payloadType opts =
     (case winningResult (SerDes s) record payloadType of
        None \<Rightarrow> False
      | Some rp \<Rightarrow> Encoding (deserializePayload s record payloadType opts) = Encoding rp)"

text \<open>The payload of the deserialized record for a payload type.\<close>

definition payloadOf :: "'v Record \<Rightarrow> PayloadType \<Rightarrow> 'v RecordPayload" where
  "payloadOf rec payloadType =
     (if payloadType = PayloadTypeValue then rec_Value rec else rec_Key rec)"

text \<open>
  Whether \<^verbatim>\<open>DeserializeRecord\<close> takes the general path: the topic is not the
  consumer-offsets topic, or its dedicated decoder fails.
\<close>

definition generalPath :: "(kgo_Record \<Rightarrow> errmsg + 'v Record) \<Rightarrow> kgo_Record \<Rightarrow> bool" where
  "generalPath deserializeConsumerOffset record =
     (Topic record \<noteq> ''__consumer_offsets'' \<or> isl (deserializeConsumerOffset record))"

text \<open>
  The result of decoding a payload before the size check of lines 133 to 136 is applied:
  the none classification for an empty payload, otherwise the winning codec's result or the
  binary classification.
\<close>

definition decodedResult :: "'v Service \<Rightarrow> kgo_Record \<Rightarrow> PayloadType \<Rightarrow> 'v RecordPayload" where
  "decodedResult s record payloadType =
     (if len (payloadFromRecord record payloadType) = 0
      then RecordPayload_zero \<lparr>Encoding := PayloadEncodingNone\<rparr>
      else
        (case winningResult (SerDes s) record payloadType of
           None \<Rightarrow> RecordPayload_zero \<lparr>Encoding := PayloadEncodingBinary\<rparr>
         | Some rp \<Rightarrow>
             if Encoding rp = '''' then RecordPayload_zero \<lparr>Encoding := PayloadEncodingBinary\<rparr>
             else rp))"

text \<open>
  The size rule as the specification words it, for the payload of a deserialized record: a
  payload longer than the configured maximum (1,000,000 when \<^verbatim>\<open>MaxPayloadSize\<close> is zero or
  negative) is flagged too large and has no normalized payload.
\<close>

definition spec_too_large_flagged ::
  "'v Record \<Rightarrow> kgo_Record \<Rightarrow> PayloadType \<Rightarrow> DeserializationOptions \<Rightarrow> bool" where
  "spec_too_large_flagged result record payloadType opts =
     (len (payloadFromRecord record payloadType)
        > (if MaxPayloadSize opts \<le> 0 then 1000000 else MaxPayloadSize opts)
      \<longrightarrow> IsPayloadTooLarge (payloadOf result payloadType)
          \<and> NormalizedPayload (payloadOf result payloadType) = None)"

section \<open>The Avro codec (avro.go)\<close>

text \<open>
  \<^verbatim>\<open>schema.Service\<close> is declared outside the sources; the codec uses its method
  \<^verbatim>\<open>GetAvroSchemaByID\<close> only. \<open>'sch\<close> is the parsed Avro schema.
\<close>

record 'sch schema_Service =
  GetAvroSchemaByID :: "32 word \<Rightarrow> errmsg + 'sch"

text \<open>The struct \<^verbatim>\<open>AvroSerde\<close>; its \<^verbatim>\<open>SchemaService\<close> pointer may be nil.\<close>

record 'sch AvroSerde =
  SchemaService :: "'sch schema_Service option"

definition AvroSerde_Name :: "'sch AvroSerde \<Rightarrow> PayloadEncoding" where
  "AvroSerde_Name d = payloadEncodingAvro"

text \<open>
  \<^verbatim>\<open>binary.BigEndian.Uint32\<close> of the Go library, on a slice of at least four bytes (on a
  shorter one Go panics; the codec calls it on \<^verbatim>\<open>payload[1:5]\<close> of a payload longer than
  five bytes).
\<close>

fun BigEndian_Uint32 :: "byte list \<Rightarrow> 32 word" where
  "BigEndian_Uint32 (b0 # b1 # b2 # b3 # rest) =
     (ucast b3 OR push_bit 8 (ucast b2) OR push_bit 16 (ucast b1) OR push_bit 24 (ucast b0))"
| "BigEndian_Uint32 _ = 0"

text \<open>The bytes of a slice (none for the nil slice).\<close>

fun bytesOf :: "bytes \<Rightarrow> byte list" where
  "bytesOf None = []"
| "bytesOf (Some bs) = bs"

text \<open>
  \<^verbatim>\<open>AvroSerde.DeserializePayload\<close>. \<open>unmarshal\<close> is \<^verbatim>\<open>avro.Unmarshal\<close> of the Avro library.
  The second component of the result is a ghost log of the calls made to the schema
  registry (the identifiers looked up), in order.
\<close>

definition AvroSerde_DeserializePayload ::
  "'sch AvroSerde \<Rightarrow> ('sch \<Rightarrow> byte list \<Rightarrow> errmsg + 'v) \<Rightarrow> kgo_Record \<Rightarrow> PayloadType \<Rightarrow>
   (errmsg + 'v RecordPayload) \<times> 32 word list" where
  "AvroSerde_DeserializePayload d unmarshal record payloadType =
     (case SchemaService d of
        None \<Rightarrow> (Inl ''no schema registry configured'', [])
      | Some svc \<Rightarrow>
          let payload = bytesOf (payloadFromRecord record payloadType) in
          if length payload \<le> 5 then (Inl ''payload length is < 5'', [])
          else if payload ! 0 \<noteq> 0 then (Inl ''incorrect magic byte'', [])
          else
            let schemaID = BigEndian_Uint32 (take 4 (drop 1 payload)) in
            (case GetAvroSchemaByID svc schemaID of
               Inl err \<Rightarrow> (Inl (''getting avro schema from registry: '' @ err), [schemaID])
             | Inr schema \<Rightarrow>
                 (case unmarshal schema (drop 5 payload) of
                    Inl err \<Rightarrow> (Inl (''decoding avro: '' @ err), [schemaID])
                  | Inr obj \<Rightarrow>
                      (Inr (RecordPayload_zero
                              \<lparr>ParsedPayload := Some obj, Encoding := payloadEncodingAvro\<rparr>),
                       [schemaID]))))"

text \<open>
  The claim that the Avro result carries the resolved schema identifier, as the
  specification words it.
\<close>

definition spec_result_has_schemaID :: "(errmsg + 'v RecordPayload) \<Rightarrow> 32 word \<Rightarrow> bool" where
  "spec_result_has_schemaID result schemaID =
     (case result of Inl err \<Rightarrow> False | Inr rp \<Rightarrow> SchemaID rp = Some schemaID)"

section \<open>SerializeRecord\<close>

text \<open>
  The input and output structs of \<^verbatim>\<open>SerializeRecord\<close> are declared outside the sources;
  the fields are the ones the function reads and writes.
\<close>

record 'v RecordPayloadInput =
  in_Payload :: 'v
  in_Encoding :: PayloadEncoding
  in_Options :: "SerdeOpt list"


record RecordPayloadSerializeResult =
  ser_Encoding :: PayloadEncoding
  ser_Payload :: bytes
  ser_Troubleshooting :: "TroubleshootingReport list option"






text \<open>
  The serialization of one side, defined on the codec list without the loop. The codecs
  whose name equals the requested encoding are the candidates (at most one when names are
  unique); without a candidate the side fails with an invalid encoding error; otherwise
  the first candidate that encodes gives its name and the bytes, and when none encodes the
  side fails with the last candidate's error. The troubleshooting list holds one entry per
  candidate that failed. \<open>side\<close> is the word printed in the invalid encoding error.
\<close>

definition encodeFails :: "'v RecordPayloadInput \<Rightarrow> PayloadType \<Rightarrow> 'v Serde \<Rightarrow> bool" where
  "encodeFails inp payloadType serde =
     isl (SerializeObject serde (in_Payload inp) payloadType (in_Options inp))"

definition encodeError :: "'v RecordPayloadInput \<Rightarrow> PayloadType \<Rightarrow> 'v Serde \<Rightarrow> errmsg" where
  "encodeError inp payloadType serde =
     (case SerializeObject serde (in_Payload inp) payloadType (in_Options inp) of
        Inl serErr \<Rightarrow> serErr | Inr bytes \<Rightarrow> '''')"

definition encodedBytes :: "'v RecordPayloadInput \<Rightarrow> PayloadType \<Rightarrow> 'v Serde \<Rightarrow> bytes" where
  "encodedBytes inp payloadType serde =
     (case SerializeObject serde (in_Payload inp) payloadType (in_Options inp) of
        Inl serErr \<Rightarrow> None | Inr bytes \<Rightarrow> bytes)"

definition encodeReport ::
  "'v RecordPayloadInput \<Rightarrow> PayloadType \<Rightarrow> 'v Serde \<Rightarrow> TroubleshootingReport" where
  "encodeReport inp payloadType serde =
     \<lparr>SerdeName = Name serde, Message = encodeError inp payloadType serde\<rparr>"

definition spec_serializeSide ::
  "'v Serde list \<Rightarrow> string \<Rightarrow> 'v RecordPayloadInput \<Rightarrow> PayloadType \<Rightarrow>
   RecordPayloadSerializeResult \<times> errmsg option" where
  "spec_serializeSide serdes side inp payloadType =
     (case find (\<lambda>serde. \<not> encodeFails inp payloadType serde)
             (filter (\<lambda>serde. Name serde = in_Encoding inp) serdes) of
        Some serde \<Rightarrow>
          (\<lparr>ser_Encoding = Name serde,
            ser_Payload = encodedBytes inp payloadType serde,
            ser_Troubleshooting =
              Some (map (encodeReport inp payloadType)
                      (takeWhile (encodeFails inp payloadType)
                         (filter (\<lambda>serde. Name serde = in_Encoding inp) serdes)))\<rparr>,
           None)
      | None \<Rightarrow>
          (\<lparr>ser_Encoding = '''', ser_Payload = None,
            ser_Troubleshooting =
              Some (map (encodeReport inp payloadType)
                      (filter (\<lambda>serde. Name serde = in_Encoding inp) serdes))\<rparr>,
           if filter (\<lambda>serde. Name serde = in_Encoding inp) serdes = []
           then Some (''invalid encoding for '' @ side @ '': '' @ in_Encoding inp)
           else Some (encodeError inp payloadType
                        (last (filter (\<lambda>serde. Name serde = in_Encoding inp) serdes)))))"


section \<open>Package schema: the registry client (client.go)\<close>

record RestError =
  ErrorCode :: int
  rest_Message :: string

text \<open>
  Errors of package schema: an error of the HTTP client (\<open>Transport\<close>), the results of
  \<^verbatim>\<open>fmt.Errorf\<close> by format (a plain message, a wrapped error \<^verbatim>\<open>%w\<close>, a number \<^verbatim>\<open>%d\<close>,
  a number and a string \<^verbatim>\<open>%d - %s\<close>), and the structured \<^verbatim>\<open>*RestError\<close>.
\<close>

datatype Err =
    Transport string
  | Errorf string
  | Errorf_w string Err
  | Errorf_d string int
  | Errorf_d_s string int string
  | RestErr RestError

record Reference =
  ref_Name :: string
  ref_Subject :: string
  ref_Version :: int

record SchemaResponse =
  sr_Schema :: string
  sr_References :: "Reference list"

record SchemaVersionedResponse =
  svr_Subject :: string
  svr_SchemaID :: int
  svr_Version :: int
  svr_Schema :: string
  svr_Type :: string
  svr_References :: "Reference list"

record SubjectsResponse =
  Subjects :: "string list"

record SubjectVersionsResponse =
  Versions :: "int list"

record ModeResponse =
  Mode :: string

record ConfigResponse =
  Compatibility :: string

record DeleteSubjectResponse =
  del_Versions :: "int list"

record DeleteSubjectVersionResponse =
  del_Version :: int

record SchemaReference =
  sref_Name :: string
  sref_Subject :: string
  sref_Version :: int

record Schema =
  schema_Schema :: string
  schema_Type :: string
  schema_References :: "SchemaReference list"

record CreateSchemaResponse =
  ID :: int

text \<open>
  Modelled from the spec: \<^verbatim>\<open>TypeAvro.String()\<close> and \<^verbatim>\<open>CodeSubjectNotFound\<close> are declared
  outside the sources; the type tag is "AVRO", and the code is the 40401 of the comment on
  \<^verbatim>\<open>GetSubjectConfig\<close>.
\<close>

definition TypeAvro_String :: string where
  "TypeAvro_String = ''AVRO''"

definition CodeSubjectNotFound :: int where
  "CodeSubjectNotFound = 40401"

definition StatusNotFound :: int where
  "StatusNotFound = 404"

subsection \<open>The HTTP exchange\<close>

datatype Method = GET | DELETE | POST

text \<open>
  A request as the client builds it: method, URL (a format with its numeric arguments, or a
  template with path parameters), query parameters and body.
\<close>

record Request =
  req_Method :: Method
  req_URL :: string
  req_URLArgs :: "int list"
  req_PathParams :: "(string \<times> string) list"
  req_QueryParams :: "(string \<times> string) list"
  req_Body :: "Schema option"

definition newRequest :: "Method \<Rightarrow> string \<Rightarrow> Request" where
  "newRequest m url =
     \<lparr>req_Method = m, req_URL = url, req_URLArgs = [], req_PathParams = [],
      req_QueryParams = [], req_Body = None\<rparr>"

text \<open>\<^verbatim>\<open>if showSoftDeleted { req.SetQueryParam("deleted", "true") }\<close>\<close>

definition withDeleted :: "bool \<Rightarrow> Request \<Rightarrow> Request" where
  "withDeleted showSoftDeleted req =
     (if showSoftDeleted
      then req \<lparr>req_QueryParams := req_QueryParams req @ [(''deleted'', ''true'')]\<rparr>
      else req)"

text \<open>
  The object a response was decoded into, by the type given to \<^verbatim>\<open>SetResult\<close>; a type
  assertion on \<^verbatim>\<open>res.Result()\<close> is a match on the constructor.
\<close>

datatype Body =
    NoBody
  | B_Schema SchemaResponse
  | B_Versioned SchemaVersionedResponse
  | B_Strings "string list"
  | B_Ints "int list"
  | B_Int int
  | B_Mode ModeResponse
  | B_Config ConfigResponse
  | B_Schemas "SchemaVersionedResponse list"
  | B_Create CreateSchemaResponse

text \<open>
  A response: \<open>ErrorObj\<close> is \<^verbatim>\<open>res.Error().(*RestError)\<close> (\<open>None\<close> when the assertion
  fails: the body was not decoded as the registry's error schema), \<open>RawBody\<close> is
  \<^verbatim>\<open>res.Body()\<close>.
\<close>

record Response =
  StatusCode :: int
  ErrorObj :: "RestError option"
  ResultObj :: Body
  RawBody :: string

text \<open>\<^verbatim>\<open>res.IsError()\<close> of the HTTP library: a status code above 399.\<close>

definition IsError :: "Response \<Rightarrow> bool" where
  "IsError res = (StatusCode res > 399)"

text \<open>
  The client: \<open>client c req\<close> is the outcome of sending \<open>req\<close>, a transport error or a
  response.
\<close>

record Client =
  client :: "Request \<Rightarrow> Err + Response"

subsection \<open>The operations\<close>

definition req_GetSchemaByID :: "32 word \<Rightarrow> Request" where
  "req_GetSchemaByID schemaId =
     (newRequest GET ''/schemas/ids/%d'') \<lparr>req_URLArgs := [uint schemaId]\<rparr>"

definition GetSchemaByID :: "Client \<Rightarrow> 32 word \<Rightarrow> Err + SchemaResponse" where
  "GetSchemaByID c schemaId =
     (case client c (req_GetSchemaByID schemaId) of
        Inl err \<Rightarrow> Inl (Errorf_w ''get schema by id request failed: '' err)
      | Inr res \<Rightarrow>
          if IsError res then
            (case ErrorObj res of
               None \<Rightarrow> Inl (Errorf_d ''get schema by id request failed: Status code '' (StatusCode res))
             | Some restErr \<Rightarrow> Inl (RestErr restErr))
          else
            (case ResultObj res of
               B_Schema parsed \<Rightarrow> Inr parsed
             | _ \<Rightarrow> Inl (Errorf ''failed to parse schema response'')))"

definition req_GetSchemaBySubject :: "string \<Rightarrow> string \<Rightarrow> bool \<Rightarrow> Request" where
  "req_GetSchemaBySubject subject version showSoftDeleted =
     withDeleted showSoftDeleted
       ((newRequest GET ''/subjects/{subjects}/versions/{version}'')
          \<lparr>req_PathParams := [(''subjects'', subject), (''version'', version)]\<rparr>)"

definition GetSchemaBySubject ::
  "Client \<Rightarrow> string \<Rightarrow> string \<Rightarrow> bool \<Rightarrow> Err + SchemaVersionedResponse" where
  "GetSchemaBySubject c subject version showSoftDeleted =
     (case client c (req_GetSchemaBySubject subject version showSoftDeleted) of
        Inl err \<Rightarrow> Inl (Errorf_w ''get schema by subject request failed: '' err)
      | Inr res \<Rightarrow>
          if IsError res then
            (case ErrorObj res of
               None \<Rightarrow>
                 Inl (Errorf_d ''get schema by subject request failed: Status code '' (StatusCode res))
             | Some restErr \<Rightarrow> Inl (RestErr restErr))
          else
            (case ResultObj res of
               B_Versioned parsed \<Rightarrow>
                 Inr (if svr_Type parsed = '''' then parsed \<lparr>svr_Type := TypeAvro_String\<rparr>
                      else parsed)
             | _ \<Rightarrow> Inl (Errorf ''failed to parse schema by subject response'')))"

definition req_GetSubjects :: "bool \<Rightarrow> Request" where
  "req_GetSubjects showSoftDeleted = withDeleted showSoftDeleted (newRequest GET ''/subjects'')"

definition GetSubjects :: "Client \<Rightarrow> bool \<Rightarrow> Err + SubjectsResponse" where
  "GetSubjects c showSoftDeleted =
     (case client c (req_GetSubjects showSoftDeleted) of
        Inl err \<Rightarrow> Inl (Errorf_w ''get subjects request failed: '' err)
      | Inr res \<Rightarrow>
          (case ResultObj res of
             B_Strings parsed \<Rightarrow> Inr \<lparr>Subjects = parsed\<rparr>
           | _ \<Rightarrow> Inl (Errorf ''failed to parse subjects response'')))"

definition req_GetSubjectVersions :: "string \<Rightarrow> bool \<Rightarrow> Request" where
  "req_GetSubjectVersions subject showSoftDeleted =
     withDeleted showSoftDeleted
       ((newRequest GET ''/subjects/{subject}/versions'')
          \<lparr>req_PathParams := [(''subject'', subject)]\<rparr>)"

definition GetSubjectVersions :: "Client \<Rightarrow> string \<Rightarrow> bool \<Rightarrow> Err + SubjectVersionsResponse" where
  "GetSubjectVersions c subject showSoftDeleted =
     (case client c (req_GetSubjectVersions subject showSoftDeleted) of
        Inl err \<Rightarrow> Inl (Errorf_w ''get subject versions request failed: '' err)
      | Inr res \<Rightarrow>
          if IsError res then
            (case ErrorObj res of
               None \<Rightarrow>
                 Inl (Errorf_d ''get subject versions request failed: Status code '' (StatusCode res))
             | Some restErr \<Rightarrow> Inl (RestErr restErr))
          else
            (case ResultObj res of
               B_Ints parsed \<Rightarrow> Inr \<lparr>Versions = parsed\<rparr>
             | _ \<Rightarrow> Inl (Errorf ''failed to parse subject versions response'')))"

definition req_GetMode :: Request where
  "req_GetMode = newRequest GET ''/mode''"

definition GetMode :: "Client \<Rightarrow> Err + ModeResponse" where
  "GetMode c =
     (case client c req_GetMode of
        Inl err \<Rightarrow> Inl (Errorf_w ''get mode request failed: '' err)
      | Inr res \<Rightarrow>
          if IsError res then
            (case ErrorObj res of
               None \<Rightarrow> Inl (Errorf_d ''get mode request failed: Status code '' (StatusCode res))
             | Some restErr \<Rightarrow> Inl (RestErr restErr))
          else
            (case ResultObj res of
               B_Mode parsed \<Rightarrow> Inr parsed
             | _ \<Rightarrow> Inl (Errorf ''failed to parse mode response'')))"

definition req_GetConfig :: Request where
  "req_GetConfig = newRequest GET ''/config''"

definition GetConfig :: "Client \<Rightarrow> Err + ConfigResponse" where
  "GetConfig c =
     (case client c req_GetConfig of
        Inl err \<Rightarrow> Inl (Errorf_w ''get config failed: '' err)
      | Inr res \<Rightarrow>
          if IsError res then
            (case ErrorObj res of
               None \<Rightarrow> Inl (Errorf_d ''get config failed: Status code '' (StatusCode res))
             | Some restErr \<Rightarrow> Inl (RestErr restErr))
          else
            (case ResultObj res of
               B_Config parsed \<Rightarrow> Inr parsed
             | _ \<Rightarrow> Inl (Errorf ''failed to parse config response'')))"

definition req_GetSubjectConfig :: "string \<Rightarrow> Request" where
  "req_GetSubjectConfig subject =
     (newRequest GET ''/config/{subject}'')
       \<lparr>req_PathParams := [(''subject'', subject), (''defaultToGlobal'', ''true'')]\<rparr>"

definition GetSubjectConfig :: "Client \<Rightarrow> string \<Rightarrow> Err + ConfigResponse" where
  "GetSubjectConfig c subject =
     (case client c (req_GetSubjectConfig subject) of
        Inl err \<Rightarrow> Inl (Errorf_w ''get config for subject failed: '' err)
      | Inr res \<Rightarrow>
          if IsError res then
            (case ErrorObj res of
               None \<Rightarrow> Inl (Errorf_d ''get config for subject failed: Status code '' (StatusCode res))
             | Some restErr \<Rightarrow>
                 if ErrorCode restErr = CodeSubjectNotFound
                 then Inr \<lparr>Compatibility = ''DEFAULT''\<rparr>
                 else Inl (RestErr restErr))
          else
            (case ResultObj res of
               B_Config parsed \<Rightarrow> Inr parsed
             | _ \<Rightarrow> Inl (Errorf ''failed to parse config for subject response'')))"

text \<open>\<^verbatim>\<open>strconv.FormatBool\<close>\<close>

definition FormatBool :: "bool \<Rightarrow> string" where
  "FormatBool b = (if b then ''true'' else ''false'')"

definition req_DeleteSubject :: "string \<Rightarrow> bool \<Rightarrow> Request" where
  "req_DeleteSubject subject deletePermanently =
     (newRequest DELETE ''/subjects/{subject}'')
       \<lparr>req_PathParams := [(''subject'', subject)],
        req_QueryParams := [(''permanent'', FormatBool deletePermanently)]\<rparr>"

text \<open>
  The result is decoded into the local \<^verbatim>\<open>deletedVersions\<close>, which stays nil when nothing
  was decoded.
\<close>

definition DeleteSubject :: "Client \<Rightarrow> string \<Rightarrow> bool \<Rightarrow> Err + DeleteSubjectResponse" where
  "DeleteSubject c subject deletePermanently =
     (case client c (req_DeleteSubject subject deletePermanently) of
        Inl err \<Rightarrow> Inl (Errorf_w ''delete subject failed: '' err)
      | Inr res \<Rightarrow>
          if IsError res then
            (case ErrorObj res of
               None \<Rightarrow> Inl (Errorf_d ''delete subject failed: Status code '' (StatusCode res))
             | Some restErr \<Rightarrow> Inl (RestErr restErr))
          else
            Inr \<lparr>del_Versions = (case ResultObj res of B_Ints deletedVersions \<Rightarrow> deletedVersions
                                  | _ \<Rightarrow> [])\<rparr>)"

definition req_DeleteSubjectVersion :: "string \<Rightarrow> string \<Rightarrow> bool \<Rightarrow> Request" where
  "req_DeleteSubjectVersion subject version deletePermanently =
     (newRequest DELETE ''/subjects/{subject}/versions/{version}'')
       \<lparr>req_PathParams := [(''subject'', subject), (''version'', version)],
        req_QueryParams := [(''permanent'', FormatBool deletePermanently)]\<rparr>"

definition DeleteSubjectVersion ::
  "Client \<Rightarrow> string \<Rightarrow> string \<Rightarrow> bool \<Rightarrow> Err + DeleteSubjectVersionResponse" where
  "DeleteSubjectVersion c subject version deletePermanently =
     (case client c (req_DeleteSubjectVersion subject version deletePermanently) of
        Inl err \<Rightarrow> Inl (Errorf_w ''delete subject version failed: '' err)
      | Inr res \<Rightarrow>
          if IsError res then
            (case ErrorObj res of
               None \<Rightarrow> Inl (Errorf_d ''delete subject version failed: Status code '' (StatusCode res))
             | Some restErr \<Rightarrow> Inl (RestErr restErr))
          else
            Inr \<lparr>del_Version = (case ResultObj res of B_Int deletedVersion \<Rightarrow> deletedVersion
                                 | _ \<Rightarrow> 0)\<rparr>)"

definition req_GetSchemaTypes :: Request where
  "req_GetSchemaTypes = newRequest GET ''/schemas/types''"

definition GetSchemaTypes :: "Client \<Rightarrow> Err + string list" where
  "GetSchemaTypes c =
     (case client c req_GetSchemaTypes of
        Inl err \<Rightarrow> Inl (Errorf_w ''get schema types failed: '' err)
      | Inr res \<Rightarrow>
          if IsError res then
            (case ErrorObj res of
               None \<Rightarrow> Inl (Errorf_d ''get schema types failed: Status code '' (StatusCode res))
             | Some restErr \<Rightarrow> Inl (RestErr restErr))
          else
            Inr (case ResultObj res of B_Strings supportedTypes \<Rightarrow> supportedTypes | _ \<Rightarrow> []))"

definition req_CreateSchema :: "string \<Rightarrow> Schema \<Rightarrow> Request" where
  "req_CreateSchema subjectName schema =
     (newRequest POST ''/subjects/{subject}/versions'')
       \<lparr>req_PathParams := [(''subject'', subjectName)],
        req_QueryParams := [(''normalize'', ''true'')],
        req_Body := Some schema\<rparr>"

definition CreateSchema :: "Client \<Rightarrow> string \<Rightarrow> Schema \<Rightarrow> Err + CreateSchemaResponse" where
  "CreateSchema c subjectName schema =
     (case client c (req_CreateSchema subjectName schema) of
        Inl err \<Rightarrow> Inl (Errorf_w ''create schema failed: '' err)
      | Inr res \<Rightarrow>
          if IsError res then
            (case ErrorObj res of
               None \<Rightarrow> Inl (Errorf_d ''create schema failed: Status code '' (StatusCode res))
             | Some restErr \<Rightarrow> Inl (RestErr restErr))
          else
            Inr (case ResultObj res of B_Create createSchemaRes \<Rightarrow> createSchemaRes
                 | _ \<Rightarrow> \<lparr>ID = 0\<rparr>))"

text \<open>
  The receive loop of \<^verbatim>\<open>GetSchemasIndividually\<close> (lines 597 to 606), over the results in
  the order the channel delivers them: the first error ends the function with that error,
  wrapped, and no list.
\<close>

fun receiveAll ::
  "(Err + SchemaVersionedResponse) list \<Rightarrow> SchemaVersionedResponse list \<Rightarrow>
   Err + SchemaVersionedResponse list" where
  "receiveAll [] schemas = Inr schemas"
| "receiveAll (res # rest) schemas =
     (case res of
        Inl err \<Rightarrow> Inl (Errorf_w ''failed to fetch at least one schema: '' err)
      | Inr schemaRes \<Rightarrow> receiveAll rest (schemas @ [schemaRes]))"

text \<open>
  \<^verbatim>\<open>GetSchemasIndividually\<close>. One goroutine per subject fetches the latest version and
  sends its result on a channel with room for all of them; the order of arrival is not
  fixed by the program and is the parameter \<open>order\<close>: the i-th result received is the one
  of the subject at index \<open>order ! i\<close>. A run of the program corresponds to an \<open>order\<close> that
  is a permutation of the subject indices (\<open>arrival_order\<close>).
\<close>

definition arrival_order :: "nat list \<Rightarrow> nat \<Rightarrow> bool" where
  "arrival_order order n = (distinct order \<and> set order = set [0..<n])"

definition GetSchemasIndividually ::
  "Client \<Rightarrow> nat list \<Rightarrow> bool \<Rightarrow> Err + SchemaVersionedResponse list" where
  "GetSchemasIndividually c order showSoftDeleted =
     (case GetSubjects c showSoftDeleted of
        Inl err \<Rightarrow> Inl (Errorf_w ''failed to get subjects to fetch schemas for: '' err)
      | Inr subjectsRes \<Rightarrow>
          receiveAll
            (map (\<lambda>i. GetSchemaBySubject c (Subjects subjectsRes ! i) ''latest'' showSoftDeleted)
               order)
            [])"

definition req_GetSchemas :: "bool \<Rightarrow> Request" where
  "req_GetSchemas showSoftDeleted = withDeleted showSoftDeleted (newRequest GET ''/schemas'')"

definition GetSchemas ::
  "Client \<Rightarrow> nat list \<Rightarrow> bool \<Rightarrow> Err + SchemaVersionedResponse list" where
  "GetSchemas c order showSoftDeleted =
     (case client c (req_GetSchemas showSoftDeleted) of
        Inl err \<Rightarrow> Inl (Errorf_w ''get schemas failed: '' err)
      | Inr res \<Rightarrow>
          if StatusCode res = StatusNotFound then
            GetSchemasIndividually c order showSoftDeleted
          else if IsError res then
            (case ErrorObj res of
               None \<Rightarrow> Inl (Errorf_d ''get schemas failed: Status code '' (StatusCode res))
             | Some restErr \<Rightarrow> Inl (RestErr restErr))
          else
            Inr (case ResultObj res of B_Schemas schemas \<Rightarrow> schemas | _ \<Rightarrow> []))"

definition req_CheckConnectivity :: Request where
  "req_CheckConnectivity = newRequest GET ''subjects''"

definition CheckConnectivity :: "Client \<Rightarrow> Err option" where
  "CheckConnectivity c =
     (case client c req_CheckConnectivity of
        Inl err \<Rightarrow> Some err
      | Inr res \<Rightarrow>
          if IsError res
          then Some (Errorf_d_s ''response is an error. Status: '' (StatusCode res) (RawBody res))
          else None)"

text \<open>
  The error taxonomy as the specification words it: a response with an error status yields
  the structured registry error when the body was decoded as one, and a generic status error
  (the operation's message and the status code) otherwise.
\<close>

definition spec_registryError :: "string \<Rightarrow> Response \<Rightarrow> Err" where
  "spec_registryError prefix res =
     (case ErrorObj res of
        Some restErr \<Rightarrow> RestErr restErr
      | None \<Rightarrow> Errorf_d prefix (StatusCode res))"

section \<open>Example inputs\<close>

text \<open>
  Codecs for the examples: one that always fails (as the Avro codec without a registry
  does), one that accepts every payload as text, and one that succeeds with an empty label.
\<close>

definition ex_failing :: "nat Serde" where
  "ex_failing =
     \<lparr>Name = ''avro'',
      DeserializePayload = (\<lambda>record payloadType. Inl ''no schema registry configured''),
      SerializeObject = (\<lambda>obj payloadType opts. Inl ''no schema registry configured'')\<rparr>"

definition ex_text :: "nat Serde" where
  "ex_text =
     \<lparr>Name = ''text'',
      DeserializePayload =
        (\<lambda>record payloadType.
           Inr (Some (RecordPayload_zero
                        \<lparr>NormalizedPayload := payloadFromRecord record payloadType,
                         Encoding := ''text''\<rparr>))),
      SerializeObject = (\<lambda>obj payloadType opts. Inr (Some [of_nat obj]))\<rparr>"

definition ex_unlabelled :: "nat Serde" where
  "ex_unlabelled =
     \<lparr>Name = ''unlabelled'',
      DeserializePayload = (\<lambda>record payloadType. Inr (Some RecordPayload_zero)),
      SerializeObject = (\<lambda>obj payloadType opts. Inr None)\<rparr>"

definition ex_record :: kgo_Record where
  "ex_record = \<lparr>Key = None, Value = Some [1], Topic = ''orders'', Headers = []\<rparr>"

definition ex_big_record :: kgo_Record where
  "ex_big_record =
     \<lparr>Key = None, Value = Some (replicate 1000001 0), Topic = ''orders'', Headers = []\<rparr>"

definition ex_opts :: DeserializationOptions where
  "ex_opts =
     \<lparr>KeyEncoding = '''', ValueEncoding = '''', MaxPayloadSize = 0, Troubleshoot = False,
      IncludeRawData = False\<rparr>"

definition ex_dco :: "kgo_Record \<Rightarrow> errmsg + nat Record" where
  "ex_dco record = Inl ''not a consumer offsets record''"

text \<open>An Avro codec whose registry knows schema 7 only, and a decoder reading one byte.\<close>

definition ex_schemaService :: "string schema_Service" where
  "ex_schemaService =
     \<lparr>GetAvroSchemaByID =
        (\<lambda>schemaID. if schemaID = 7 then Inr ''int'' else Inl ''schema not found'')\<rparr>"

definition ex_avro :: "string AvroSerde" where
  "ex_avro = \<lparr>SchemaService = Some ex_schemaService\<rparr>"

definition ex_unmarshal :: "string \<Rightarrow> byte list \<Rightarrow> errmsg + nat" where
  "ex_unmarshal schema body =
     (case body of [b] \<Rightarrow> Inr (unat b) | _ \<Rightarrow> Inl ''unexpected length'')"

definition ex_avro_record :: kgo_Record where
  "ex_avro_record =
     \<lparr>Key = None, Value = Some [0, 0, 0, 0, 7, 42], Topic = ''orders'', Headers = []\<rparr>"

definition ex_short_record :: kgo_Record where
  "ex_short_record =
     \<lparr>Key = Some [1, 0, 0, 0, 7, 42], Value = Some [0, 0, 0, 0, 7], Topic = ''orders'',
      Headers = []\<rparr>"




text \<open>
  A registry without the bulk endpoint, with subjects A, B and C, where the latest version
  of B cannot be fetched.
\<close>

definition ex_schema_of :: "string \<Rightarrow> SchemaVersionedResponse" where
  "ex_schema_of subject =
     \<lparr>svr_Subject = subject, svr_SchemaID = 1, svr_Version = 1, svr_Schema = ''string'',
      svr_Type = '''', svr_References = []\<rparr>"

definition ex_old_registry :: Client where
  "ex_old_registry =
     \<lparr>client = (\<lambda>req.
        if req_URL req = ''/schemas'' then
          Inr \<lparr>StatusCode = 404, ErrorObj = None, ResultObj = B_Schemas [], RawBody = ''''\<rparr>
        else if req_URL req = ''/subjects'' then
          Inr \<lparr>StatusCode = 200, ErrorObj = None, ResultObj = B_Strings [''A'', ''B'', ''C''],
               RawBody = ''''\<rparr>
        else if req_PathParams req = [(''subjects'', ''B''), (''version'', ''latest'')] then
          Inr \<lparr>StatusCode = 500,
               ErrorObj = Some \<lparr>ErrorCode = 50001, rest_Message = ''backend error''\<rparr>,
               ResultObj = B_Versioned (ex_schema_of ''''), RawBody = ''''\<rparr>
        else
          Inr \<lparr>StatusCode = 200, ErrorObj = None,
               ResultObj = B_Versioned (ex_schema_of (snd (hd (req_PathParams req)))),
               RawBody = ''''\<rparr>)\<rparr>"

text \<open>
  A registry that answers every request with status 500 and a structured error, one that
  answers with status 404 and the subject-not-found code, and the responses themselves.
\<close>

definition ex_error_response :: "Body \<Rightarrow> Response" where
  "ex_error_response result =
     \<lparr>StatusCode = 500,
      ErrorObj = Some \<lparr>ErrorCode = 50001, rest_Message = ''backend error''\<rparr>,
      ResultObj = result, RawBody = ''{}''\<rparr>"

definition ex_failing_registry :: Client where
  "ex_failing_registry = \<lparr>client = (\<lambda>req. Inr (ex_error_response (B_Strings [])))\<rparr>"

definition ex_not_found_response :: Response where
  "ex_not_found_response =
     \<lparr>StatusCode = 404,
      ErrorObj = Some \<lparr>ErrorCode = 40401, rest_Message = ''Subject not found.''\<rparr>,
      ResultObj = B_Config \<lparr>Compatibility = ''''\<rparr>, RawBody = ''{}''\<rparr>"

definition ex_no_override_registry :: Client where
  "ex_no_override_registry = \<lparr>client = (\<lambda>req. Inr ex_not_found_response)\<rparr>"

definition ex_gateway_response :: Response where
  "ex_gateway_response =
     \<lparr>StatusCode = 502, ErrorObj = None, ResultObj = NoBody, RawBody = ''Bad Gateway''\<rparr>"

definition ex_gateway_registry :: Client where
  "ex_gateway_registry = \<lparr>client = (\<lambda>req. Inr ex_gateway_response)\<rparr>"

definition ex_schema :: Schema where
  "ex_schema = \<lparr>schema_Schema = ''string'', schema_Type = ''AVRO'', schema_References = []\<rparr>"

text \<open>
  A record of the consumer-offsets topic and a dedicated decoder that accepts it; the
  decoder sees the record only.
\<close>

definition ex_offsets_record :: kgo_Record where
  "ex_offsets_record =
     \<lparr>Key = Some [0, 1], Value = Some [0, 3, 0, 7], Topic = ''__consumer_offsets'',
      Headers = []\<rparr>"

definition ex_dco_accepting :: "kgo_Record \<Rightarrow> errmsg + nat Record" where
  "ex_dco_accepting record =
     Inr \<lparr>rec_Key = RecordPayload_zero
                      \<lparr>NormalizedPayload := Key record, Encoding := ''consumerOffsets'',
                       PayloadSizeBytes := len (Key record)\<rparr>,
          rec_Value = RecordPayload_zero
                        \<lparr>NormalizedPayload := Value record, Encoding := ''consumerOffsets'',
                         PayloadSizeBytes := len (Value record)\<rparr>,
          rec_Headers = []\<rparr>"

section \<open>The codec chain of NewService\<close>

text \<open>
  C2 (as amended). The chain built by \<^verbatim>\<open>NewService\<close> is, in this order: none, JSON,
  JSON-with-schema, XML, Avro-with-schema, Protobuf-without-schema, Protobuf-with-schema,
  MessagePack, Smile, UTF-8 text, plain text, unsigned integer. It has twelve entries and the
  service holds exactly their method sets, in the same order.
\<close>

theorem NewService_chain_order:
  "map format_of (NewService_SerDes schemaService protoSvc msgPackSvc) =
     [NoneCheck, Json, JsonWithSchema, Xml, AvroWithSchema, ProtobufWithoutSchema,
      ProtobufWithSchema, MessagePack, Smile, Utf8Text, PlainText, UnsignedInteger]
   \<and> map Name (SerDes (NewService methods schemaService protoSvc msgPackSvc)) =
       map (Name \<circ> methods) (NewService_SerDes schemaService protoSvc msgPackSvc)
   \<and> length (SerDes (NewService methods schemaService protoSvc msgPackSvc)) = 12"
  by (simp add: NewService_def NewService_SerDes_def)

text \<open>
  The order the specification lists differs from the chain at the two Protobuf entries: the
  sixth codec of the chain is \<^verbatim>\<open>ProtobufSerde\<close>, the seventh \<^verbatim>\<open>ProtobufSchemaSerde\<close>.
\<close>

theorem NewService_chain_order_counterexample:
  "map format_of (NewService_SerDes () () ()) \<noteq> spec_chain_order
   \<and> NewService_SerDes () () () ! 5 = ProtobufSerde ()
   \<and> spec_chain_order ! 5 = ProtobufWithSchema"
  by (simp add: NewService_SerDes_def spec_chain_order_def)

section \<open>Options that deserialization does not read\<close>

lemma deserializePayload_opts_cong:
  "MaxPayloadSize o1 = MaxPayloadSize o2 \<Longrightarrow> Troubleshoot o1 = Troubleshoot o2 \<Longrightarrow>
   IncludeRawData o1 = IncludeRawData o2 \<Longrightarrow>
   deserializePayload s record pt o1 = deserializePayload s record pt o2"
  by (simp add: deserializePayload_def populate_def Let_def)

text \<open>
  C10. \<^verbatim>\<open>KeyEncoding\<close> and \<^verbatim>\<open>ValueEncoding\<close> have no effect on \<^verbatim>\<open>DeserializeRecord\<close>:
  changing them to any values leaves the result unchanged, for every service, record and
  options.
\<close>

theorem DeserializeRecord_ignores_forced_encodings:
  "DeserializeRecord s dco record (opts \<lparr>KeyEncoding := ke, ValueEncoding := ve\<rparr>)
     = DeserializeRecord s dco record opts"
proof -
  have "deserializePayload s record pt
          (withDefaults (opts \<lparr>KeyEncoding := ke, ValueEncoding := ve\<rparr>))
        = deserializePayload s record pt (withDefaults opts)" for pt
    by (rule deserializePayload_opts_cong) (simp_all add: withDefaults_def)
  then show ?thesis
    unfolding DeserializeRecord_def Let_def by (simp split: sum.split)
qed

section \<open>The dispatch loop of deserializePayload\<close>

text \<open>
  The loop computes what running the chain by hand gives: the outcome of the first codec
  that succeeds (of the last codec when none does), the entries of the codecs that failed
  before it, and calls to exactly the codecs up to and including the first success.
\<close>

lemma trySerDes_char:
  "trySerDes serdes r pt (out, ts, called) =
     ((case firstSuccess serdes r pt of
         Some sd \<Rightarrow> DeserializePayload sd r pt
       | None \<Rightarrow> (if serdes = [] then out else DeserializePayload (last serdes) r pt)),
      ts @ accumulatedReports serdes r pt,
      called @ map Name (take (Suc (length (failedCodecs serdes r pt))) serdes))"
proof (induction serdes arbitrary: out ts called)
  case Nil
  then show ?case
    by (simp add: firstSuccess_def accumulatedReports_def failedCodecs_def)
next
  case (Cons sd rest)
  show ?case
  proof (cases "DeserializePayload sd r pt")
    case (Inl err)
    then show ?thesis
      using Cons.IH [of "Inl err" "ts @ [\<lparr>SerdeName = Name sd, Message = err\<rparr>]"
          "called @ [Name sd]"]
      by (auto simp: firstSuccess_def accumulatedReports_def failedCodecs_def decodeFails_def
            reportOf_def split: option.splits)
  next
    case (Inr rp)
    then show ?thesis
      by (simp add: firstSuccess_def accumulatedReports_def failedCodecs_def decodeFails_def)
  qed
qed

lemma firstSuccess_None_last:
  "firstSuccess serdes r pt = None \<Longrightarrow> serdes \<noteq> [] \<Longrightarrow>
   isl (DeserializePayload (last serdes) r pt)"
  by (simp add: firstSuccess_def find_None_iff decodeFails_def)

lemma firstSuccess_Some_succeeds:
  "firstSuccess serdes r pt = Some sd \<Longrightarrow> \<not> isl (DeserializePayload sd r pt)"
  by (auto simp: firstSuccess_def find_Some_iff decodeFails_def)

lemma binaryFallback_runSerDes:
  "binaryFallback (fst (runSerDes s r pt)) t =
     (case winningResult (SerDes s) r pt of
        None \<Rightarrow> (RecordPayload_zero \<lparr>Encoding := PayloadEncodingBinary\<rparr>, True)
      | Some rp \<Rightarrow> if Encoding rp = ''''
                   then (RecordPayload_zero \<lparr>Encoding := PayloadEncodingBinary\<rparr>, True)
                   else (rp, t))"
proof (cases "firstSuccess (SerDes s) r pt")
  case None
  show ?thesis
  proof (cases "SerDes s = []")
    case True
    with None show ?thesis
      by (simp add: runSerDes_def trySerDes_char winningResult_def binaryFallback_def)
  next
    case False
    with None obtain err where "DeserializePayload (last (SerDes s)) r pt = Inl err"
      using firstSuccess_None_last [of "SerDes s" r pt] by (auto simp: isl_def)
    with None False show ?thesis
      by (simp add: runSerDes_def trySerDes_char winningResult_def binaryFallback_def)
  qed
next
  case (Some sd)
  then obtain rp where "DeserializePayload sd r pt = Inr rp"
    using firstSuccess_Some_succeeds [of "SerDes s" r pt sd]
    by (cases "DeserializePayload sd r pt") auto
  with Some show ?thesis
    by (simp add: runSerDes_def trySerDes_char winningResult_def binaryFallback_def
          split: option.splits)
qed

lemma reports_runSerDes:
  "fst (snd (runSerDes s r pt)) = accumulatedReports (SerDes s) r pt"
  by (simp add: runSerDes_def trySerDes_char)

lemma take_Suc_takeWhile:
  "take (Suc (length (takeWhile P xs))) xs =
     takeWhile P xs @ (case find (\<lambda>x. \<not> P x) xs of None \<Rightarrow> [] | Some x \<Rightarrow> [x])"
  by (induction xs) auto

lemma invokedSerDes_char:
  "invokedSerDes s r pt =
     map Name (failedCodecs (SerDes s) r pt) @
     (case firstSuccess (SerDes s) r pt of None \<Rightarrow> [] | Some sd \<Rightarrow> [Name sd])"
  by (simp add: invokedSerDes_def runSerDes_def trySerDes_char failedCodecs_def
        firstSuccess_def take_Suc_takeWhile split: option.splits)

lemma deserializePayload_nonempty:
  "len (payloadFromRecord r pt) \<noteq> 0 \<Longrightarrow>
   deserializePayload s r pt opts =
     populate (payloadFromRecord r pt) opts (accumulatedReports (SerDes s) r pt)
       (case winningResult (SerDes s) r pt of
          None \<Rightarrow> (RecordPayload_zero \<lparr>Encoding := PayloadEncodingBinary\<rparr>, True)
        | Some rp \<Rightarrow> if Encoding rp = ''''
                     then (RecordPayload_zero \<lparr>Encoding := PayloadEncodingBinary\<rparr>, True)
                     else (rp, Troubleshoot opts))"
  by (simp add: deserializePayload_def Let_def binaryFallback_runSerDes reports_runSerDes)

lemma DeserializeRecord_general:
  "generalPath dco record \<Longrightarrow>
   payloadOf (DeserializeRecord s dco record opts) pt
     = deserializePayload s record pt (withDefaults opts)"
  by (cases pt)
     (auto simp: generalPath_def DeserializeRecord_def payloadOf_def Let_def isl_def)

subsection \<open>The example chains, evaluated\<close>

lemma ex_chain_facts:
  "decodeFails record pt ex_failing" "\<not> decodeFails record pt ex_text"
  "\<not> decodeFails record pt ex_unlabelled"
  by (simp_all add: decodeFails_def ex_failing_def ex_text_def ex_unlabelled_def)

lemma ex_winning:
  "winningResult [ex_failing] record pt = None"
  "winningResult [ex_unlabelled] record pt = Some RecordPayload_zero"
  "winningResult [ex_failing, ex_unlabelled] record pt = Some RecordPayload_zero"
  "winningResult (ex_failing # ex_text # rest) record pt =
     Some (RecordPayload_zero
             \<lparr>NormalizedPayload := payloadFromRecord record pt, Encoding := ''text''\<rparr>)"
  by (simp_all add: winningResult_def firstSuccess_def ex_chain_facts)
     (simp_all add: ex_text_def ex_unlabelled_def)

lemma ex_first:
  "firstSuccess (ex_failing # ex_text # rest) record pt = Some ex_text"
  "failedCodecs (ex_failing # ex_text # rest) record pt = [ex_failing]"
  "failedCodecs [ex_failing] record pt = [ex_failing]"
  "failedCodecs [ex_failing, ex_unlabelled] record pt = [ex_failing]"
  by (simp_all add: firstSuccess_def failedCodecs_def ex_chain_facts)

lemma ex_report:
  "reportOf record pt ex_failing
     = \<lparr>SerdeName = ''avro'', Message = ''no schema registry configured''\<rparr>"
  by (simp add: reportOf_def ex_failing_def)

lemma ex_len: "len (payloadFromRecord ex_record PayloadTypeValue) \<noteq> 0"
  by (simp add: ex_record_def payloadFromRecord_def)

section \<open>The label returned by deserializePayload\<close>

text \<open>
  C4 (as amended). For every non-empty payload \<^verbatim>\<open>deserializePayload\<close> returns one non-empty
  encoding label: the label reported by the first codec of the chain that succeeds, when
  there is one and its label is not empty, and the binary label otherwise (no codec
  succeeds, or the first success is a nil result or has an empty label). The codecs called
  are the ones that fail before the first success, followed by the first success itself:
  no codec after it is called.
\<close>

theorem deserializePayload_label:
  assumes "len (payloadFromRecord record pt) \<noteq> 0"
  shows "Encoding (deserializePayload s record pt opts) \<noteq> '''' \<and>
         Encoding (deserializePayload s record pt opts) =
           (case winningResult (SerDes s) record pt of
              None \<Rightarrow> PayloadEncodingBinary
            | Some rp \<Rightarrow> if Encoding rp = '''' then PayloadEncodingBinary else Encoding rp) \<and>
         invokedSerDes s record pt =
           map Name (failedCodecs (SerDes s) record pt) @
           (case firstSuccess (SerDes s) record pt of None \<Rightarrow> [] | Some sd \<Rightarrow> [Name sd])"
  using assms
  by (simp add: deserializePayload_nonempty populate_def invokedSerDes_char
        PayloadEncodingBinary_def split: option.splits)

text \<open>
  On the chain failing, text, unlabelled and a one-byte value the label is the text codec's
  and the third codec is not called.
\<close>

theorem deserializePayload_label_witness:
  "len (payloadFromRecord ex_record PayloadTypeValue) \<noteq> 0 \<and>
   Encoding (deserializePayload \<lparr>SerDes = [ex_failing, ex_text, ex_unlabelled]\<rparr>
               ex_record PayloadTypeValue ex_opts) = ''text'' \<and>
   invokedSerDes \<lparr>SerDes = [ex_failing, ex_text, ex_unlabelled]\<rparr> ex_record PayloadTypeValue
     = [''avro'', ''text'']"
  using deserializePayload_label
          [OF ex_len, of "\<lparr>SerDes = [ex_failing, ex_text, ex_unlabelled]\<rparr>" ex_opts] ex_len
  by (simp add: ex_winning ex_first RecordPayload_zero_def)
     (simp add: ex_failing_def ex_text_def)

text \<open>
  The label is not always the one of a first succeeding codec: with a chain whose only
  codec fails no codec succeeds and the label is binary, and with a chain whose only codec
  succeeds with an empty label the label is binary, not the empty one the codec reported.
\<close>

theorem deserializePayload_label_counterexample:
  "len (payloadFromRecord ex_record PayloadTypeValue) \<noteq> 0 \<and>
   \<not> spec_label_of_first_success \<lparr>SerDes = [ex_failing]\<rparr> ex_record PayloadTypeValue ex_opts \<and>
   Encoding (deserializePayload \<lparr>SerDes = [ex_failing]\<rparr> ex_record PayloadTypeValue ex_opts)
     = ''binary'' \<and>
   \<not> spec_label_of_first_success \<lparr>SerDes = [ex_unlabelled]\<rparr> ex_record PayloadTypeValue ex_opts \<and>
   Encoding (deserializePayload \<lparr>SerDes = [ex_unlabelled]\<rparr> ex_record PayloadTypeValue ex_opts)
     = ''binary''"
  by (simp add: spec_label_of_first_success_def ex_winning ex_len deserializePayload_nonempty
        populate_def RecordPayload_zero_def PayloadEncodingBinary_def)

section \<open>Troubleshooting entries\<close>

text \<open>
  C5. For every non-empty payload: when no codec succeeds (or the first success is a nil
  result) or the winning codec reports an empty label, the result is classified binary and
  carries the entries accumulated from the failed codecs, whatever the caller's
  \<^verbatim>\<open>Troubleshoot\<close> option; when a codec succeeds with a non-empty label, the result keeps
  that label and the accumulated entries are attached exactly when \<^verbatim>\<open>Troubleshoot\<close> is set
  (otherwise the field is left as the codec returned it).
\<close>

theorem deserializePayload_troubleshooting:
  assumes "len (payloadFromRecord record pt) \<noteq> 0"
  shows "(case winningResult (SerDes s) record pt of
            None \<Rightarrow>
              Encoding (deserializePayload s record pt opts) = PayloadEncodingBinary \<and>
              Troubleshooting (deserializePayload s record pt opts)
                = Some (accumulatedReports (SerDes s) record pt)
          | Some rp \<Rightarrow>
              if Encoding rp = '''' then
                Encoding (deserializePayload s record pt opts) = PayloadEncodingBinary \<and>
                Troubleshooting (deserializePayload s record pt opts)
                  = Some (accumulatedReports (SerDes s) record pt)
              else
                Encoding (deserializePayload s record pt opts) = Encoding rp \<and>
                Troubleshooting (deserializePayload s record pt opts)
                  = (if Troubleshoot opts then Some (accumulatedReports (SerDes s) record pt)
                     else Troubleshooting rp))"
  using assms
  by (simp add: deserializePayload_nonempty populate_def split: option.splits)

text \<open>
  With \<^verbatim>\<open>Troubleshoot\<close> off: a chain that fails and a chain won with an empty label give the
  entry of the failed codec; a chain won by the text codec gives none, and gives the entry
  once \<^verbatim>\<open>Troubleshoot\<close> is on.
\<close>

theorem deserializePayload_troubleshooting_witness:
  "len (payloadFromRecord ex_record PayloadTypeValue) \<noteq> 0 \<and>
   \<not> Troubleshoot ex_opts \<and>
   Encoding (deserializePayload \<lparr>SerDes = [ex_failing]\<rparr> ex_record PayloadTypeValue ex_opts)
     = PayloadEncodingBinary \<and>
   Troubleshooting (deserializePayload \<lparr>SerDes = [ex_failing]\<rparr> ex_record PayloadTypeValue ex_opts)
     = Some [\<lparr>SerdeName = ''avro'', Message = ''no schema registry configured''\<rparr>] \<and>
   Troubleshooting (deserializePayload \<lparr>SerDes = [ex_failing, ex_unlabelled]\<rparr> ex_record
                      PayloadTypeValue ex_opts)
     = Some [\<lparr>SerdeName = ''avro'', Message = ''no schema registry configured''\<rparr>] \<and>
   Troubleshooting (deserializePayload \<lparr>SerDes = [ex_failing, ex_text]\<rparr> ex_record
                      PayloadTypeValue ex_opts) = None \<and>
   Troubleshooting (deserializePayload \<lparr>SerDes = [ex_failing, ex_text]\<rparr> ex_record
                      PayloadTypeValue (ex_opts \<lparr>Troubleshoot := True\<rparr>))
     = Some [\<lparr>SerdeName = ''avro'', Message = ''no schema registry configured''\<rparr>]"
  using deserializePayload_troubleshooting [OF ex_len, of "\<lparr>SerDes = [ex_failing]\<rparr>" ex_opts]
    deserializePayload_troubleshooting
      [OF ex_len, of "\<lparr>SerDes = [ex_failing, ex_unlabelled]\<rparr>" ex_opts]
    deserializePayload_troubleshooting [OF ex_len, of "\<lparr>SerDes = [ex_failing, ex_text]\<rparr>" ex_opts]
    deserializePayload_troubleshooting
      [OF ex_len, of "\<lparr>SerDes = [ex_failing, ex_text]\<rparr>" "ex_opts \<lparr>Troubleshoot := True\<rparr>"]
    ex_len
  by (simp add: ex_winning ex_first ex_report accumulatedReports_def RecordPayload_zero_def)
     (simp add: ex_opts_def)

section \<open>Payloads over the maximum size\<close>

lemma withDefaults_max:
  "MaxPayloadSize (withDefaults opts)
     = (if MaxPayloadSize opts \<le> 0 then 1000000 else MaxPayloadSize opts)"
  by (simp add: withDefaults_def defaultMaxPayloadSize_def)

lemma deserializePayload_size_check:
  "IsPayloadTooLarge (deserializePayload s record pt opts)
     = ((len (payloadFromRecord record pt) \<noteq> 0
         \<and> len (payloadFromRecord record pt) > MaxPayloadSize opts)
        \<or> IsPayloadTooLarge (decodedResult s record pt))"
  "NormalizedPayload (deserializePayload s record pt opts)
     = (if len (payloadFromRecord record pt) \<noteq> 0
           \<and> len (payloadFromRecord record pt) > MaxPayloadSize opts
        then None else NormalizedPayload (decodedResult s record pt))"
  "Encoding (deserializePayload s record pt opts) = Encoding (decodedResult s record pt)"
  "PayloadSizeBytes (deserializePayload s record pt opts) = len (payloadFromRecord record pt)"
proof -
  show "IsPayloadTooLarge (deserializePayload s record pt opts)
     = ((len (payloadFromRecord record pt) \<noteq> 0
         \<and> len (payloadFromRecord record pt) > MaxPayloadSize opts)
        \<or> IsPayloadTooLarge (decodedResult s record pt))"
  proof (cases "len (payloadFromRecord record pt) = 0")
    case True
    then show ?thesis
      by (simp add: deserializePayload_def decodedResult_def Let_def RecordPayload_zero_def)
  next
    case False
    then show ?thesis
      by (simp add: deserializePayload_nonempty decodedResult_def populate_def
            split: option.splits)
  qed
  show "NormalizedPayload (deserializePayload s record pt opts)
     = (if len (payloadFromRecord record pt) \<noteq> 0
           \<and> len (payloadFromRecord record pt) > MaxPayloadSize opts
        then None else NormalizedPayload (decodedResult s record pt))"
  proof (cases "len (payloadFromRecord record pt) = 0")
    case True
    then show ?thesis
      by (simp add: deserializePayload_def decodedResult_def Let_def RecordPayload_zero_def)
  next
    case False
    then show ?thesis
      by (simp add: deserializePayload_nonempty decodedResult_def populate_def
            split: option.splits)
  qed
  show "Encoding (deserializePayload s record pt opts) = Encoding (decodedResult s record pt)"
  proof (cases "len (payloadFromRecord record pt) = 0")
    case True
    then show ?thesis
      by (simp add: deserializePayload_def decodedResult_def Let_def RecordPayload_zero_def)
  next
    case False
    then show ?thesis
      by (simp add: deserializePayload_nonempty decodedResult_def populate_def
            split: option.splits)
  qed
  show "PayloadSizeBytes (deserializePayload s record pt opts) = len (payloadFromRecord record pt)"
  proof (cases "len (payloadFromRecord record pt) = 0")
    case True
    then show ?thesis
      by (simp add: deserializePayload_def decodedResult_def Let_def RecordPayload_zero_def)
  next
    case False
    then show ?thesis
      by (simp add: deserializePayload_nonempty decodedResult_def populate_def
            split: option.splits)
  qed
qed

lemma decodedResult_label: "Encoding (decodedResult s record pt) \<noteq> ''''"
  by (simp add: decodedResult_def PayloadEncodingNone_def PayloadEncodingBinary_def
        split: option.splits)

text \<open>
  C8 (as amended). On the general path of \<^verbatim>\<open>DeserializeRecord\<close> (the topic is not the
  consumer-offsets topic, or its dedicated decoder fails), for the key and for the value,
  with the configured maximum size being the caller's \<^verbatim>\<open>MaxPayloadSize\<close>, or 1,000,000
  whenever that is zero or negative: a payload longer than the maximum has the too-large
  flag set and no normalized payload, and a payload not longer than it keeps the flag and
  the normalized payload of the decoded result; in both cases the encoding label is the
  decoded result's, is not empty, and the size is the payload's length.
\<close>

theorem DeserializeRecord_too_large:
  assumes "generalPath dco record"
  shows "IsPayloadTooLarge (payloadOf (DeserializeRecord s dco record opts) pt)
           = (len (payloadFromRecord record pt)
                > (if MaxPayloadSize opts \<le> 0 then 1000000 else MaxPayloadSize opts)
              \<or> IsPayloadTooLarge (decodedResult s record pt)) \<and>
         NormalizedPayload (payloadOf (DeserializeRecord s dco record opts) pt)
           = (if len (payloadFromRecord record pt)
                   > (if MaxPayloadSize opts \<le> 0 then 1000000 else MaxPayloadSize opts)
              then None else NormalizedPayload (decodedResult s record pt)) \<and>
         Encoding (payloadOf (DeserializeRecord s dco record opts) pt)
           = Encoding (decodedResult s record pt) \<and>
         Encoding (payloadOf (DeserializeRecord s dco record opts) pt) \<noteq> '''' \<and>
         PayloadSizeBytes (payloadOf (DeserializeRecord s dco record opts) pt)
           = len (payloadFromRecord record pt)"
proof -
  have pos: "len (payloadFromRecord record pt) > MaxPayloadSize (withDefaults opts)
             \<Longrightarrow> len (payloadFromRecord record pt) \<noteq> 0"
    by (simp add: withDefaults_max split: if_splits)
  show ?thesis
    using pos decodedResult_label [of s "record" pt]
    unfolding DeserializeRecord_general [OF assms] deserializePayload_size_check
    by (auto simp: withDefaults_max)
qed


lemma ex_text_decoded:
  "len (payloadFromRecord r pt) \<noteq> 0 \<Longrightarrow>
   decodedResult \<lparr>SerDes = [ex_text]\<rparr> r pt =
     RecordPayload_zero \<lparr>NormalizedPayload := payloadFromRecord r pt, Encoding := ''text''\<rparr>"
  by (simp add: decodedResult_def winningResult_def firstSuccess_def decodeFails_def ex_text_def)

lemma ex_general: "generalPath ex_dco r"
  by (simp add: generalPath_def ex_dco_def)

text \<open>
  Under the default maximum (\<^verbatim>\<open>MaxPayloadSize\<close> 0) a value of 1,000,001 bytes is flagged
  and a value of one byte is not; under a maximum of 5 a key of six bytes is flagged and a
  value of five bytes is not.
\<close>

theorem DeserializeRecord_too_large_witness:
  "generalPath ex_dco ex_big_record \<and> generalPath ex_dco ex_record \<and>
   generalPath ex_dco ex_short_record \<and>
   MaxPayloadSize ex_opts = 0 \<and>
   len (payloadFromRecord ex_big_record PayloadTypeValue) = 1000001 \<and>
   IsPayloadTooLarge (payloadOf (DeserializeRecord \<lparr>SerDes = [ex_text]\<rparr> ex_dco ex_big_record
                                   ex_opts) PayloadTypeValue) \<and>
   NormalizedPayload (payloadOf (DeserializeRecord \<lparr>SerDes = [ex_text]\<rparr> ex_dco ex_big_record
                                   ex_opts) PayloadTypeValue) = None \<and>
   Encoding (payloadOf (DeserializeRecord \<lparr>SerDes = [ex_text]\<rparr> ex_dco ex_big_record
                          ex_opts) PayloadTypeValue) = ''text'' \<and>
   PayloadSizeBytes (payloadOf (DeserializeRecord \<lparr>SerDes = [ex_text]\<rparr> ex_dco ex_big_record
                          ex_opts) PayloadTypeValue) = 1000001 \<and>
   \<not> IsPayloadTooLarge (payloadOf (DeserializeRecord \<lparr>SerDes = [ex_text]\<rparr> ex_dco ex_record
                                     ex_opts) PayloadTypeValue) \<and>
   NormalizedPayload (payloadOf (DeserializeRecord \<lparr>SerDes = [ex_text]\<rparr> ex_dco ex_record
                                   ex_opts) PayloadTypeValue) = Some [1] \<and>
   IsPayloadTooLarge (payloadOf (DeserializeRecord \<lparr>SerDes = [ex_text]\<rparr> ex_dco ex_short_record
                                   (ex_opts \<lparr>MaxPayloadSize := 5\<rparr>)) PayloadTypeKey) \<and>
   \<not> IsPayloadTooLarge (payloadOf (DeserializeRecord \<lparr>SerDes = [ex_text]\<rparr> ex_dco ex_short_record
                                     (ex_opts \<lparr>MaxPayloadSize := 5\<rparr>)) PayloadTypeValue)"
proof -
  have m: "MaxPayloadSize ex_opts = 0"
    by (simp add: ex_opts_def)
  have l: "len (payloadFromRecord ex_big_record PayloadTypeValue) = 1000001"
    "len (payloadFromRecord ex_record PayloadTypeValue) = 1"
    "payloadFromRecord ex_record PayloadTypeValue = Some [1]"
    "len (payloadFromRecord ex_short_record PayloadTypeKey) = 6"
    "len (payloadFromRecord ex_short_record PayloadTypeValue) = 5"
    by (simp_all add: ex_big_record_def ex_record_def ex_short_record_def payloadFromRecord_def)
  show ?thesis
    using DeserializeRecord_too_large [of ex_dco ex_big_record "\<lparr>SerDes = [ex_text]\<rparr>" ex_opts PayloadTypeValue, OF ex_general]
      DeserializeRecord_too_large [of ex_dco ex_record "\<lparr>SerDes = [ex_text]\<rparr>" ex_opts PayloadTypeValue, OF ex_general]
      DeserializeRecord_too_large [of ex_dco ex_short_record "\<lparr>SerDes = [ex_text]\<rparr>"
            "ex_opts \<lparr>MaxPayloadSize := 5\<rparr>" PayloadTypeKey, OF ex_general]
      DeserializeRecord_too_large [of ex_dco ex_short_record "\<lparr>SerDes = [ex_text]\<rparr>"
            "ex_opts \<lparr>MaxPayloadSize := 5\<rparr>" PayloadTypeValue, OF ex_general]
    by (simp add: ex_general m l ex_text_decoded RecordPayload_zero_def)
qed

lemma DeserializeRecord_offsets_path:
  "Topic r = ''__consumer_offsets'' \<Longrightarrow> dco r = Inr decoded \<Longrightarrow>
   DeserializeRecord s dco r opts = decoded"
  by (simp add: DeserializeRecord_def Let_def)

text \<open>
  A record of the consumer-offsets topic that the dedicated decoder accepts is returned as
  decoded, without a size check: under a maximum of 2 its four-byte value is not flagged
  and keeps its normalized payload.
\<close>

theorem DeserializeRecord_too_large_counterexample:
  "\<not> spec_too_large_flagged
       (DeserializeRecord \<lparr>SerDes = [ex_text]\<rparr> ex_dco_accepting ex_offsets_record
          (ex_opts \<lparr>MaxPayloadSize := 2\<rparr>))
       ex_offsets_record PayloadTypeValue (ex_opts \<lparr>MaxPayloadSize := 2\<rparr>) \<and>
   len (payloadFromRecord ex_offsets_record PayloadTypeValue) = 4 \<and>
   \<not> IsPayloadTooLarge
       (rec_Value (DeserializeRecord \<lparr>SerDes = [ex_text]\<rparr> ex_dco_accepting ex_offsets_record
                     (ex_opts \<lparr>MaxPayloadSize := 2\<rparr>))) \<and>
   NormalizedPayload
       (rec_Value (DeserializeRecord \<lparr>SerDes = [ex_text]\<rparr> ex_dco_accepting ex_offsets_record
                     (ex_opts \<lparr>MaxPayloadSize := 2\<rparr>))) = Some [0, 3, 0, 7]"
  by (simp add: spec_too_large_flagged_def DeserializeRecord_def Let_def ex_dco_accepting_def
        ex_offsets_record_def payloadFromRecord_def payloadOf_def RecordPayload_zero_def)


section \<open>The Avro codec\<close>

text \<open>
  C9. For every payload of at most five bytes, and for every payload whose first byte is
  not 0x00, \<^verbatim>\<open>AvroSerde.DeserializePayload\<close> returns an error and makes no call to the schema
  registry.
\<close>

theorem AvroSerde_rejects_before_registry:
  assumes "length (bytesOf (payloadFromRecord record pt)) \<le> 5
           \<or> hd (bytesOf (payloadFromRecord record pt)) \<noteq> 0"
  shows "isl (fst (AvroSerde_DeserializePayload d unmarshal record pt)) \<and>
         snd (AvroSerde_DeserializePayload d unmarshal record pt) = []"
proof (cases "SchemaService d")
  case None
  then show ?thesis by (simp add: AvroSerde_DeserializePayload_def)
next
  case (Some svc)
  show ?thesis
  proof (cases "length (bytesOf (payloadFromRecord record pt)) \<le> 5")
    case True
    with Some show ?thesis by (simp add: AvroSerde_DeserializePayload_def)
  next
    case False
    with assms have "hd (bytesOf (payloadFromRecord record pt)) \<noteq> 0" by simp
    moreover from False have "bytesOf (payloadFromRecord record pt) \<noteq> []" by auto
    ultimately have "bytesOf (payloadFromRecord record pt) ! 0 \<noteq> 0"
      by (simp add: hd_conv_nth)
    with Some False show ?thesis by (simp add: AvroSerde_DeserializePayload_def)
  qed
qed

text \<open>A five-byte value and a six-byte key starting with 0x01, with a registry attached.\<close>

theorem AvroSerde_rejects_before_registry_witness:
  "length (bytesOf (payloadFromRecord ex_short_record PayloadTypeValue)) \<le> 5 \<and>
   hd (bytesOf (payloadFromRecord ex_short_record PayloadTypeKey)) \<noteq> 0 \<and>
   AvroSerde_DeserializePayload ex_avro ex_unmarshal ex_short_record PayloadTypeValue
     = (Inl ''payload length is < 5'', []) \<and>
   AvroSerde_DeserializePayload ex_avro ex_unmarshal ex_short_record PayloadTypeKey
     = (Inl ''incorrect magic byte'', [])"
  using AvroSerde_rejects_before_registry
          [of ex_short_record PayloadTypeValue ex_avro ex_unmarshal]
    AvroSerde_rejects_before_registry [of ex_short_record PayloadTypeKey ex_avro ex_unmarshal]
  by (simp add: ex_short_record_def payloadFromRecord_def ex_avro_def
        AvroSerde_DeserializePayload_def)

text \<open>
  C3 (as amended). For every well-formed Avro-framed payload (longer than five bytes, first
  byte 0x00) whose schema identifier resolves and whose body decodes,
  \<^verbatim>\<open>AvroSerde.DeserializePayload\<close> looks the big-endian identifier of bytes 1 to 4 up once
  and returns a result that holds the structured value and the Avro encoding label; every
  other field, the schema identifier among them, is left at its zero value.
\<close>

theorem AvroSerde_DeserializePayload_success:
  assumes "SchemaService d = Some svc"
    and "payloadFromRecord record pt = Some payload"
    and "length payload > 5"
    and "payload ! 0 = 0"
    and "GetAvroSchemaByID svc (BigEndian_Uint32 (take 4 (drop 1 payload))) = Inr schema"
    and "unmarshal schema (drop 5 payload) = Inr obj"
  shows "AvroSerde_DeserializePayload d unmarshal record pt =
           (Inr \<lparr>ParsedPayload = Some obj, NormalizedPayload = None,
                 Encoding = payloadEncodingAvro, PayloadSizeBytes = 0, IsPayloadNull = False,
                 IsPayloadTooLarge = False, OriginalPayload = None, Troubleshooting = None,
                 SchemaID = None\<rparr>,
            [BigEndian_Uint32 (take 4 (drop 1 payload))])"
  using assms by (simp add: AvroSerde_DeserializePayload_def RecordPayload_zero_def)

text \<open>The frame 00 00 00 00 07 2A with a registry that resolves schema 7.\<close>

theorem AvroSerde_DeserializePayload_success_witness:
  "SchemaService ex_avro = Some ex_schemaService \<and>
   payloadFromRecord ex_avro_record PayloadTypeValue = Some [0, 0, 0, 0, 7, 42] \<and>
   BigEndian_Uint32 (take 4 (drop 1 [0, 0, 0, 0, 7, 42])) = 7 \<and>
   AvroSerde_DeserializePayload ex_avro ex_unmarshal ex_avro_record PayloadTypeValue =
     (Inr \<lparr>ParsedPayload = Some 42, NormalizedPayload = None,
           Encoding = payloadEncodingAvro, PayloadSizeBytes = 0, IsPayloadNull = False,
           IsPayloadTooLarge = False, OriginalPayload = None, Troubleshooting = None,
           SchemaID = None\<rparr>, [7])"
  using AvroSerde_DeserializePayload_success
          [of ex_avro ex_schemaService ex_avro_record PayloadTypeValue "[0, 0, 0, 0, 7, 42]"
             "''int''" ex_unmarshal 42]
  by (simp add: ex_avro_def ex_schemaService_def ex_avro_record_def payloadFromRecord_def
        ex_unmarshal_def)

text \<open>
  The same frame decodes, after one lookup of schema 7, to a result whose schema
  identifier is not 7: it is not set.
\<close>

theorem AvroSerde_schemaID_counterexample:
  "\<not> spec_result_has_schemaID
       (fst (AvroSerde_DeserializePayload ex_avro ex_unmarshal ex_avro_record PayloadTypeValue)) 7
   \<and> \<not> isl (fst (AvroSerde_DeserializePayload ex_avro ex_unmarshal ex_avro_record
                    PayloadTypeValue))
   \<and> snd (AvroSerde_DeserializePayload ex_avro ex_unmarshal ex_avro_record PayloadTypeValue) = [7]"
  by (simp add: spec_result_has_schemaID_def AvroSerde_DeserializePayload_def ex_avro_def
        ex_schemaService_def ex_avro_record_def payloadFromRecord_def ex_unmarshal_def
        RecordPayload_zero_def)

section \<open>SerializeRecord: key, then value\<close>




lemma spec_serializeSide_error:
  "snd (spec_serializeSide serdes side inp pt) = None \<longleftrightarrow>
   find (\<lambda>sd. \<not> encodeFails inp pt sd) (filter (\<lambda>sd. Name sd = in_Encoding inp) serdes) \<noteq> None"
  by (simp add: spec_serializeSide_def split: option.splits)









section \<open>Bulk schema listing: the fallback\<close>


lemma receiveAll_fails:
  "\<exists>x \<in> set xs. isl x \<Longrightarrow>
   \<exists>err. Inl err \<in> set xs \<and>
         receiveAll xs acc = Inl (Errorf_w ''failed to fetch at least one schema: '' err)"
proof (induction xs arbitrary: acc)
  case Nil
  then show ?case by simp
next
  case (Cons x xs)
  show ?case
  proof (cases x)
    case (Inl err)
    then show ?thesis by auto
  next
    case (Inr r)
    with Cons.prems have "\<exists>y \<in> set xs. isl y" by auto
    from Cons.IH [OF this, of "acc @ [r]"] Inr show ?thesis by auto
  qed
qed

lemma receiveAll_succeeds:
  "\<forall>x \<in> set xs. \<not> isl x \<Longrightarrow> receiveAll xs acc = Inr (acc @ map projr xs)"
proof (induction xs arbitrary: acc)
  case Nil
  then show ?case by simp
next
  case (Cons x xs)
  then show ?case by (cases x) auto
qed

text \<open>
  C6. When the bulk endpoint reports not-found, \<^verbatim>\<open>GetSchemas\<close> is \<^verbatim>\<open>GetSchemasIndividually\<close>:
  it lists the subjects and fetches the latest version of each. For every order in which
  the fetches arrive: if the fetch of any subject fails, the whole operation returns an
  error (that of a failed fetch, wrapped) and no list; if every fetch succeeds, it returns
  the fetched schemas in the order of arrival.
\<close>

theorem GetSchemas_fallback_all_or_nothing:
  assumes "client c (req_GetSchemas d) = Inr res"
    and "StatusCode res = 404"
    and "GetSubjects c d = Inr subjectsRes"
    and "arrival_order order (length (Subjects subjectsRes))"
  shows "GetSchemas c order d = GetSchemasIndividually c order d \<and>
         ((\<exists>subject \<in> set (Subjects subjectsRes).
              isl (GetSchemaBySubject c subject ''latest'' d)) \<longrightarrow>
          (\<exists>subject \<in> set (Subjects subjectsRes). \<exists>err.
              GetSchemaBySubject c subject ''latest'' d = Inl err \<and>
              GetSchemas c order d
                = Inl (Errorf_w ''failed to fetch at least one schema: '' err))) \<and>
         ((\<forall>subject \<in> set (Subjects subjectsRes).
              \<not> isl (GetSchemaBySubject c subject ''latest'' d)) \<longrightarrow>
          GetSchemas c order d
            = Inr (map (\<lambda>i. projr (GetSchemaBySubject c (Subjects subjectsRes ! i) ''latest'' d))
                     order))"
proof -
  let ?subjects = "Subjects subjectsRes"
  let ?fetch = "\<lambda>i. GetSchemaBySubject c (?subjects ! i) ''latest'' d"
  have fallback: "GetSchemas c order d = GetSchemasIndividually c order d"
    using assms(1,2) by (simp add: GetSchemas_def StatusNotFound_def)
  have indiv: "GetSchemasIndividually c order d = receiveAll (map ?fetch order) []"
    using assms(3) by (simp add: GetSchemasIndividually_def)
  have idx: "set order = {0..<length ?subjects}"
    using assms(4) by (simp add: arrival_order_def)
  have fetched: "set (map ?fetch order) = (\<lambda>s. GetSchemaBySubject c s ''latest'' d) ` set ?subjects"
  proof -
    have "set ?subjects = (\<lambda>i. ?subjects ! i) ` {0..<length ?subjects}"
      by (simp add: set_conv_nth image_def) (metis atLeastLessThan_iff zero_le)
    then show ?thesis using idx by (simp add: image_image)
  qed
  have fail: "(\<exists>subject \<in> set ?subjects. isl (GetSchemaBySubject c subject ''latest'' d)) \<longrightarrow>
          (\<exists>subject \<in> set ?subjects. \<exists>err.
              GetSchemaBySubject c subject ''latest'' d = Inl err \<and>
              GetSchemas c order d
                = Inl (Errorf_w ''failed to fetch at least one schema: '' err))"
  proof
    assume "\<exists>subject \<in> set ?subjects. isl (GetSchemaBySubject c subject ''latest'' d)"
    then have "\<exists>x \<in> set (map ?fetch order). isl x"
      unfolding fetched by blast
    from receiveAll_fails [OF this, of "[]"] obtain err where
      e: "Inl err \<in> set (map ?fetch order)"
        "receiveAll (map ?fetch order) [] = Inl (Errorf_w ''failed to fetch at least one schema: '' err)"
      by blast
    from e(1) obtain subject where "subject \<in> set ?subjects"
      "GetSchemaBySubject c subject ''latest'' d = Inl err"
      unfolding fetched by auto
    with e(2) show "\<exists>subject \<in> set ?subjects. \<exists>err.
              GetSchemaBySubject c subject ''latest'' d = Inl err \<and>
              GetSchemas c order d
                = Inl (Errorf_w ''failed to fetch at least one schema: '' err)"
      unfolding fallback indiv by blast
  qed
  have ok: "(\<forall>subject \<in> set ?subjects. \<not> isl (GetSchemaBySubject c subject ''latest'' d)) \<longrightarrow>
          GetSchemas c order d = Inr (map (\<lambda>i. projr (?fetch i)) order)"
  proof
    assume "\<forall>subject \<in> set ?subjects. \<not> isl (GetSchemaBySubject c subject ''latest'' d)"
    then have "\<forall>x \<in> set (map ?fetch order). \<not> isl x"
      unfolding fetched by blast
    from receiveAll_succeeds [OF this, of "[]"]
    show "GetSchemas c order d = Inr (map (\<lambda>i. projr (?fetch i)) order)"
      unfolding fallback indiv by (simp add: comp_def)
  qed
  from fallback fail ok show ?thesis by blast
qed


lemma ex_old_subjects:
  "GetSubjects ex_old_registry False = Inr \<lparr>Subjects = [''A'', ''B'', ''C'']\<rparr>"
  by (simp add: GetSubjects_def req_GetSubjects_def withDeleted_def newRequest_def
        ex_old_registry_def)

lemma ex_old_bulk:
  "client ex_old_registry (req_GetSchemas False)
     = Inr \<lparr>StatusCode = 404, ErrorObj = None, ResultObj = B_Schemas [], RawBody = ''''\<rparr>"
  by (simp add: req_GetSchemas_def withDeleted_def newRequest_def ex_old_registry_def)

lemma ex_old_fetch:
  "GetSchemaBySubject ex_old_registry ''A'' ''latest'' False
     = Inr ((ex_schema_of ''A'') \<lparr>svr_Type := ''AVRO''\<rparr>)"
  "GetSchemaBySubject ex_old_registry ''B'' ''latest'' False
     = Inl (RestErr \<lparr>ErrorCode = 50001, rest_Message = ''backend error''\<rparr>)"
  "GetSchemaBySubject ex_old_registry ''C'' ''latest'' False
     = Inr ((ex_schema_of ''C'') \<lparr>svr_Type := ''AVRO''\<rparr>)"
  by (simp_all add: GetSchemaBySubject_def req_GetSchemaBySubject_def withDeleted_def
        newRequest_def ex_old_registry_def IsError_def ex_schema_of_def TypeAvro_String_def)

lemma ex_order: "arrival_order [2, 0, 1] 3"
  by (simp add: arrival_order_def upt_rec) auto

text \<open>
  Subjects A, B and C, the fetch of B failing, arrival order C, A, B: the operation fails
  although two schemas had been received.
\<close>

theorem GetSchemas_fallback_all_or_nothing_witness:
  "StatusCode \<lparr>StatusCode = 404, ErrorObj = None, ResultObj = B_Schemas [], RawBody = ''''\<rparr> = 404 \<and>
   arrival_order [2, 0, 1] (length (Subjects \<lparr>Subjects = [''A'', ''B'', ''C'']\<rparr>)) \<and>
   isl (GetSchemaBySubject ex_old_registry ''B'' ''latest'' False) \<and>
   \<not> isl (GetSchemaBySubject ex_old_registry ''C'' ''latest'' False) \<and>
   GetSchemas ex_old_registry [2, 0, 1] False
     = Inl (Errorf_w ''failed to fetch at least one schema: ''
              (RestErr \<lparr>ErrorCode = 50001, rest_Message = ''backend error''\<rparr>))"
proof -
  have o: "arrival_order [2, 0, 1] (length (Subjects \<lparr>Subjects = [''A'', ''B'', ''C'']\<rparr>))"
    by (auto simp: arrival_order_def upt_rec)
  have s: "StatusCode \<lparr>StatusCode = 404, ErrorObj = None, ResultObj = B_Schemas [],
             RawBody = ''''\<rparr> = 404"
    by simp
  from GetSchemas_fallback_all_or_nothing [OF ex_old_bulk s ex_old_subjects o]
  show ?thesis
    using o by (auto simp: ex_old_fetch)
qed

section \<open>Error statuses of the registry\<close>

text \<open>
  C7 (as amended). When the registry responds with an error status, each of
  \<^verbatim>\<open>GetSchemaByID\<close>, \<^verbatim>\<open>GetSchemaBySubject\<close>, \<^verbatim>\<open>GetSubjectVersions\<close>, \<^verbatim>\<open>GetMode\<close>,
  \<^verbatim>\<open>GetConfig\<close>, \<^verbatim>\<open>DeleteSubject\<close>, \<^verbatim>\<open>DeleteSubjectVersion\<close>, \<^verbatim>\<open>GetSchemaTypes\<close> and
  \<^verbatim>\<open>CreateSchema\<close> returns an error and no result: the structured registry error when
  the body was decoded as one, a generic status error otherwise. \<^verbatim>\<open>GetSubjectConfig\<close> does
  the same, except that the structured error with code 40401 gives the result "DEFAULT";
  \<^verbatim>\<open>GetSchemas\<close> does the same for every error status other than 404 (where it falls back
  to the subjects); \<^verbatim>\<open>CheckConnectivity\<close> returns a generic error with status and body.
\<close>

theorem registry_error_status:
  assumes "IsError res"
  shows
    "(client c (req_GetSchemaByID schemaId) = Inr res \<longrightarrow>
        GetSchemaByID c schemaId
          = Inl (spec_registryError ''get schema by id request failed: Status code '' res)) \<and>
     (client c (req_GetSchemaBySubject subjectA versionA deletedA) = Inr res \<longrightarrow>
        GetSchemaBySubject c subjectA versionA deletedA
          = Inl (spec_registryError ''get schema by subject request failed: Status code '' res)) \<and>
     (client c (req_GetSubjectVersions subjectB deletedB) = Inr res \<longrightarrow>
        GetSubjectVersions c subjectB deletedB
          = Inl (spec_registryError ''get subject versions request failed: Status code '' res)) \<and>
     (client c req_GetMode = Inr res \<longrightarrow>
        GetMode c = Inl (spec_registryError ''get mode request failed: Status code '' res)) \<and>
     (client c req_GetConfig = Inr res \<longrightarrow>
        GetConfig c = Inl (spec_registryError ''get config failed: Status code '' res)) \<and>
     (client c (req_GetSubjectConfig subjectC) = Inr res \<longrightarrow>
        GetSubjectConfig c subjectC
          = (case ErrorObj res of
               None \<Rightarrow> Inl (Errorf_d ''get config for subject failed: Status code '' (StatusCode res))
             | Some restErr \<Rightarrow>
                 if ErrorCode restErr = 40401 then Inr \<lparr>Compatibility = ''DEFAULT''\<rparr>
                 else Inl (RestErr restErr))) \<and>
     (client c (req_DeleteSubject subjectD permanentD) = Inr res \<longrightarrow>
        DeleteSubject c subjectD permanentD
          = Inl (spec_registryError ''delete subject failed: Status code '' res)) \<and>
     (client c (req_DeleteSubjectVersion subjectE versionE permanentE) = Inr res \<longrightarrow>
        DeleteSubjectVersion c subjectE versionE permanentE
          = Inl (spec_registryError ''delete subject version failed: Status code '' res)) \<and>
     (client c req_GetSchemaTypes = Inr res \<longrightarrow>
        GetSchemaTypes c = Inl (spec_registryError ''get schema types failed: Status code '' res)) \<and>
     (client c (req_CreateSchema subjectF schemaF) = Inr res \<longrightarrow>
        CreateSchema c subjectF schemaF
          = Inl (spec_registryError ''create schema failed: Status code '' res)) \<and>
     (client c (req_GetSchemas deletedG) = Inr res \<longrightarrow> StatusCode res \<noteq> 404 \<longrightarrow>
        GetSchemas c orderG deletedG
          = Inl (spec_registryError ''get schemas failed: Status code '' res)) \<and>
     (client c req_CheckConnectivity = Inr res \<longrightarrow>
        CheckConnectivity c
          = Some (Errorf_d_s ''response is an error. Status: '' (StatusCode res) (RawBody res)))"
proof -
  have 1: "client c (req_GetSchemaByID schemaId) = Inr res \<longrightarrow>
        GetSchemaByID c schemaId
          = Inl (spec_registryError ''get schema by id request failed: Status code '' res)"
    using assms by (simp add: GetSchemaByID_def spec_registryError_def split: option.splits)
  have 2: "client c (req_GetSchemaBySubject subjectA versionA deletedA) = Inr res \<longrightarrow>
        GetSchemaBySubject c subjectA versionA deletedA
          = Inl (spec_registryError ''get schema by subject request failed: Status code '' res)"
    using assms by (simp add: GetSchemaBySubject_def spec_registryError_def split: option.splits)
  have 3: "client c (req_GetSubjectVersions subjectB deletedB) = Inr res \<longrightarrow>
        GetSubjectVersions c subjectB deletedB
          = Inl (spec_registryError ''get subject versions request failed: Status code '' res)"
    using assms by (simp add: GetSubjectVersions_def spec_registryError_def split: option.splits)
  have 4: "client c req_GetMode = Inr res \<longrightarrow>
        GetMode c = Inl (spec_registryError ''get mode request failed: Status code '' res)"
    using assms by (simp add: GetMode_def spec_registryError_def split: option.splits)
  have 5: "client c req_GetConfig = Inr res \<longrightarrow>
        GetConfig c = Inl (spec_registryError ''get config failed: Status code '' res)"
    using assms by (simp add: GetConfig_def spec_registryError_def split: option.splits)
  have 6: "client c (req_GetSubjectConfig subjectC) = Inr res \<longrightarrow>
        GetSubjectConfig c subjectC
          = (case ErrorObj res of
               None \<Rightarrow> Inl (Errorf_d ''get config for subject failed: Status code '' (StatusCode res))
             | Some restErr \<Rightarrow>
                 if ErrorCode restErr = 40401 then Inr \<lparr>Compatibility = ''DEFAULT''\<rparr>
                 else Inl (RestErr restErr))"
    using assms by (simp add: GetSubjectConfig_def CodeSubjectNotFound_def split: option.splits)
  have 7: "client c (req_DeleteSubject subjectD permanentD) = Inr res \<longrightarrow>
        DeleteSubject c subjectD permanentD
          = Inl (spec_registryError ''delete subject failed: Status code '' res)"
    using assms by (simp add: DeleteSubject_def spec_registryError_def split: option.splits)
  have 8: "client c (req_DeleteSubjectVersion subjectE versionE permanentE) = Inr res \<longrightarrow>
        DeleteSubjectVersion c subjectE versionE permanentE
          = Inl (spec_registryError ''delete subject version failed: Status code '' res)"
    using assms by (simp add: DeleteSubjectVersion_def spec_registryError_def split: option.splits)
  have 9: "client c req_GetSchemaTypes = Inr res \<longrightarrow>
        GetSchemaTypes c = Inl (spec_registryError ''get schema types failed: Status code '' res)"
    using assms by (simp add: GetSchemaTypes_def spec_registryError_def split: option.splits)
  have 10: "client c (req_CreateSchema subjectF schemaF) = Inr res \<longrightarrow>
        CreateSchema c subjectF schemaF
          = Inl (spec_registryError ''create schema failed: Status code '' res)"
    using assms by (simp add: CreateSchema_def spec_registryError_def split: option.splits)
  have 11: "client c (req_GetSchemas deletedG) = Inr res \<longrightarrow> StatusCode res \<noteq> 404 \<longrightarrow>
        GetSchemas c orderG deletedG
          = Inl (spec_registryError ''get schemas failed: Status code '' res)"
    using assms
    by (simp add: GetSchemas_def StatusNotFound_def spec_registryError_def split: option.splits)
  have 12: "client c req_CheckConnectivity = Inr res \<longrightarrow>
        CheckConnectivity c
          = Some (Errorf_d_s ''response is an error. Status: '' (StatusCode res) (RawBody res))"
    using assms by (simp add: CheckConnectivity_def)
  from 1 2 3 4 5 6 7 8 9 10 11 12 show ?thesis by blast
qed


lemma ex_failing_all: "client ex_failing_registry req = Inr (ex_error_response (B_Strings []))"
  by (simp add: ex_failing_registry_def)

lemma ex_gateway_all: "client ex_gateway_registry req = Inr ex_gateway_response"
  by (simp add: ex_gateway_registry_def)

lemma ex_error_facts:
  "IsError (ex_error_response b)" "StatusCode (ex_error_response b) \<noteq> 404"
  "spec_registryError prefix (ex_error_response b)
     = RestErr \<lparr>ErrorCode = 50001, rest_Message = ''backend error''\<rparr>"
  "IsError ex_gateway_response" "StatusCode ex_gateway_response \<noteq> 404"
  "spec_registryError prefix ex_gateway_response = Errorf_d prefix 502"
  by (simp_all add: IsError_def ex_error_response_def ex_gateway_response_def
        spec_registryError_def)

text \<open>
  A registry answering 500 with a structured error, and one answering 502 with a body that
  is not a registry error.
\<close>

theorem registry_error_status_witness:
  "IsError (ex_error_response (B_Strings [])) \<and> IsError ex_gateway_response \<and>
   GetSchemaByID ex_failing_registry 7
     = Inl (RestErr \<lparr>ErrorCode = 50001, rest_Message = ''backend error''\<rparr>) \<and>
   GetSchemaBySubject ex_failing_registry ''A'' ''latest'' False
     = Inl (RestErr \<lparr>ErrorCode = 50001, rest_Message = ''backend error''\<rparr>) \<and>
   GetSubjectVersions ex_failing_registry ''A'' False
     = Inl (RestErr \<lparr>ErrorCode = 50001, rest_Message = ''backend error''\<rparr>) \<and>
   GetMode ex_failing_registry
     = Inl (RestErr \<lparr>ErrorCode = 50001, rest_Message = ''backend error''\<rparr>) \<and>
   GetConfig ex_failing_registry
     = Inl (RestErr \<lparr>ErrorCode = 50001, rest_Message = ''backend error''\<rparr>) \<and>
   GetSubjectConfig ex_failing_registry ''A''
     = Inl (RestErr \<lparr>ErrorCode = 50001, rest_Message = ''backend error''\<rparr>) \<and>
   DeleteSubject ex_failing_registry ''A'' False
     = Inl (RestErr \<lparr>ErrorCode = 50001, rest_Message = ''backend error''\<rparr>) \<and>
   DeleteSubjectVersion ex_failing_registry ''A'' ''1'' False
     = Inl (RestErr \<lparr>ErrorCode = 50001, rest_Message = ''backend error''\<rparr>) \<and>
   GetSchemaTypes ex_failing_registry
     = Inl (RestErr \<lparr>ErrorCode = 50001, rest_Message = ''backend error''\<rparr>) \<and>
   CreateSchema ex_failing_registry ''A'' ex_schema
     = Inl (RestErr \<lparr>ErrorCode = 50001, rest_Message = ''backend error''\<rparr>) \<and>
   GetSchemas ex_failing_registry [] False
     = Inl (RestErr \<lparr>ErrorCode = 50001, rest_Message = ''backend error''\<rparr>) \<and>
   CheckConnectivity ex_failing_registry
     = Some (Errorf_d_s ''response is an error. Status: '' 500 ''{}'') \<and>
   GetSchemaByID ex_gateway_registry 7
     = Inl (Errorf_d ''get schema by id request failed: Status code '' 502) \<and>
   GetSubjectConfig ex_gateway_registry ''A''
     = Inl (Errorf_d ''get config for subject failed: Status code '' 502) \<and>
   GetSchemas ex_gateway_registry [] False
     = Inl (Errorf_d ''get schemas failed: Status code '' 502)"
  using registry_error_status [OF ex_error_facts(1), of ex_failing_registry 7 "B_Strings []" "''A''" "''latest''" False
              "''A''" False "''A''" "''A''" False "''A''" "''1''" False "''A''" ex_schema False "[]"]
    registry_error_status [OF ex_error_facts(4), of ex_gateway_registry 7 "''A''" "''latest''" False
              "''A''" False "''A''" "''A''" False "''A''" "''1''" False "''A''" ex_schema False "[]"]
  by (simp add: ex_failing_all ex_gateway_all ex_error_facts)
     (simp add: ex_error_response_def ex_gateway_response_def)

text \<open>
  Not every operation returns an error under an error status: for a subject without an
  override the registry answers 404 with code 40401 and \<^verbatim>\<open>GetSubjectConfig\<close> returns the
  result "DEFAULT" and no error.
\<close>

theorem GetSubjectConfig_default_counterexample:
  "IsError ex_not_found_response \<and>
   client ex_no_override_registry (req_GetSubjectConfig ''Kafka-value'') = Inr ex_not_found_response \<and>
   GetSubjectConfig ex_no_override_registry ''Kafka-value'' = Inr \<lparr>Compatibility = ''DEFAULT''\<rparr>"
  by (simp add: GetSubjectConfig_def ex_no_override_registry_def ex_not_found_response_def
        IsError_def CodeSubjectNotFound_def)

text \<open>
  \<^verbatim>\<open>GetSubjects\<close> does not look at the status: under status 500 it returns the (empty)
  list the result object holds, and no error.
\<close>

lemma GetSubjects_error_status_example:
  "IsError (ex_error_response (B_Strings [])) \<and>
   client ex_failing_registry (req_GetSubjects False) = Inr (ex_error_response (B_Strings [])) \<and>
   GetSubjects ex_failing_registry False = Inr \<lparr>Subjects = []\<rparr>"
  by (simp add: GetSubjects_def ex_failing_registry_def ex_error_response_def IsError_def)


end
